theory Spec2Isabelle
  imports Complex_Main "HOL-Library.Word"
begin

section \<open>Exceptions and strings\<close>

text \<open>
  Python exceptions are values: the class and the message \<open>str(e)\<close>. Every
  operation that can raise returns \<open>exn + 'a\<close>, with \<open>Inl\<close> for the exception.
  Only subclasses of \<open>Exception\<close> are represented. Logging and metrics calls are
  left out throughout: they change none of the modelled state.
\<close>

datatype exn_class =
    ValueError | AccountNotFoundError | InsufficientBalanceError | ConcurrentUpdateError
  | IntegrityError | RuntimeError | UnicodeDecodeError | TypeError | ConnectionError
  | RequestError | HTTPStatusError | Exception

datatype exn = Exn (exn_class: exn_class) (str_exn: string)

text \<open>\<open>needle in hay\<close> on Python strings.\<close>

fun starts_with :: "'a list \<Rightarrow> 'a list \<Rightarrow> bool" where
  "starts_with [] hay = True"
| "starts_with (x # xs) [] = False"
| "starts_with (x # xs) (y # ys) = (x = y \<and> starts_with xs ys)"

fun str_in :: "'a list \<Rightarrow> 'a list \<Rightarrow> bool" where
  "str_in needle [] = (needle = [])"
| "str_in needle (c # cs) = (starts_with needle (c # cs) \<or> str_in needle cs)"

text \<open>\<open>str.lower()\<close>; characters outside A-Z are left as they are.\<close>

definition lower_char :: "char \<Rightarrow> char" where
  "lower_char c =
     (if (65::nat) \<le> of_char c \<and> of_char c \<le> (90::nat)
      then char_of (of_char c + (32::nat)) else c)"

definition lower :: "string \<Rightarrow> string" where
  "lower s = map lower_char s"

text \<open>
  Monetary amounts are \<open>Decimal\<close> values with \<open>DECIMAL_PLACES = 2\<close>
  (\<open>Numeric(18, 2)\<close> columns, \<open>decimal_places=2\<close> in the request schema): they are
  modelled as an integer number of minor units, on which comparison, addition and
  subtraction are exact. \<open>str_decimal\<close> renders one with two decimals.
\<close>

fun digits :: "nat \<Rightarrow> string" where
  "digits n =
     (if n < 10 then [''0123456789'' ! n]
      else digits (n div 10) @ [''0123456789'' ! (n mod 10)])"

declare digits.simps [simp del]

definition str_decimal :: "int \<Rightarrow> string" where
  "str_decimal d =
     (if d < 0 then ''-'' else []) @ digits (nat \<bar>d\<bar> div 100) @ ''.''
       @ [''0123456789'' ! (nat \<bar>d\<bar> mod 100 div 10), ''0123456789'' ! (nat \<bar>d\<bar> mod 10)]"

section \<open>Circuit breaker (app/infrastructure/external/circuit\_breaker.py)\<close>

text \<open>
  Wall-clock readings of \<open>time.time()\<close> are taken as exact reals and passed to the
  operations that read the clock as the parameter \<open>now\<close>.
\<close>

datatype CircuitState = CLOSED | OPEN | HALF_OPEN

record CircuitBreaker =
  failure_threshold :: int
  timeout_seconds :: int
  success_threshold :: int
  cb_state :: CircuitState
  failure_count :: int
  success_count :: int
  last_failure_time :: "real option"

definition CircuitBreaker_init :: "int \<Rightarrow> int \<Rightarrow> int \<Rightarrow> CircuitBreaker" where
  "CircuitBreaker_init ft ts st =
     \<lparr>failure_threshold = ft, timeout_seconds = ts, success_threshold = st,
      cb_state = CLOSED, failure_count = 0, success_count = 0, last_failure_time = None\<rparr>"

definition should_attempt_reset :: "real \<Rightarrow> CircuitBreaker \<Rightarrow> bool" where
  "should_attempt_reset now cb =
     (case last_failure_time cb of
        None \<Rightarrow> False
      | Some t \<Rightarrow> now - t \<ge> of_int (timeout_seconds cb))"

definition transition_to_open :: "CircuitBreaker \<Rightarrow> CircuitBreaker" where
  "transition_to_open cb = cb\<lparr>cb_state := OPEN, success_count := 0\<rparr>"

definition transition_to_half_open :: "CircuitBreaker \<Rightarrow> CircuitBreaker" where
  "transition_to_half_open cb = cb\<lparr>cb_state := HALF_OPEN, failure_count := 0, success_count := 0\<rparr>"

definition transition_to_closed :: "CircuitBreaker \<Rightarrow> CircuitBreaker" where
  "transition_to_closed cb = cb\<lparr>cb_state := CLOSED, failure_count := 0, success_count := 0\<rparr>"

definition can_execute :: "real \<Rightarrow> CircuitBreaker \<Rightarrow> bool \<times> CircuitBreaker" where
  "can_execute now cb =
     (if cb_state cb = CLOSED then (True, cb)
      else if cb_state cb = OPEN then
        (if should_attempt_reset now cb then (True, transition_to_half_open cb)
         else (False, cb))
      else if cb_state cb = HALF_OPEN then (True, cb)
      else (False, cb))"

definition record_success :: "CircuitBreaker \<Rightarrow> CircuitBreaker" where
  "record_success cb =
     (if cb_state cb = HALF_OPEN then
        (let cb1 = cb\<lparr>success_count := success_count cb + 1\<rparr>
         in if success_count cb1 \<ge> success_threshold cb1 then transition_to_closed cb1 else cb1)
      else cb\<lparr>failure_count := 0\<rparr>)"

definition record_failure :: "real \<Rightarrow> CircuitBreaker \<Rightarrow> CircuitBreaker" where
  "record_failure now cb =
     (let cb1 = cb\<lparr>failure_count := failure_count cb + 1, last_failure_time := Some now\<rparr>
      in if cb_state cb1 = HALF_OPEN then transition_to_open cb1
         else if cb_state cb1 = CLOSED then
           (if failure_count cb1 \<ge> failure_threshold cb1 then transition_to_open cb1 else cb1)
         else cb1)"

text \<open>The breaker of the bank client after five consecutive failures, the last at time 100.\<close>

definition tripped_breaker :: CircuitBreaker where
  "tripped_breaker = (record_failure 100 ^^ 5) (CircuitBreaker_init 5 30 2)"

section \<open>Persistent state (app/infrastructure/models, app/infrastructure/repositories)\<close>

text \<open>
  UUIDs are their canonical strings. The timestamp columns are left out. A SQLAlchemy
  session is the committed database together with the session's own pending view of it:
  queries read the pending view, \<open>commit\<close> publishes it, \<open>rollback\<close> and
  \<open>close\<close> discard it. Row locks (\<open>with_for_update\<close>) do nothing in this
  sequential model.
\<close>

type_synonym uuid = string

datatype TransactionType = DEPOSIT | WITHDRAWAL

datatype TransactionStatus = PENDING | PROCESSING | SUCCESS | FAILED | PENDING_REVIEW

record Account =
  acc_id :: uuid
  user_id :: uuid
  balance :: int
  acc_currency :: string

record Transaction =
  tx_id :: uuid
  account_id :: uuid
  transaction_type :: TransactionType
  amount :: int
  currency :: string
  status :: TransactionStatus
  bank_transaction_id :: "string option"
  bank_response :: "string option"
  error_code :: "string option"
  error_message :: "string option"
  idempotency_key :: "string option"
  celery_task_id :: "string option"

record Database =
  accounts :: "uuid \<rightharpoonup> Account"
  transactions :: "uuid \<rightharpoonup> Transaction"

record Session =
  committed :: Database
  pending :: Database

definition SessionLocal :: "Database \<Rightarrow> Session" where
  "SessionLocal d = \<lparr>committed = d, pending = d\<rparr>"

definition commit :: "Session \<Rightarrow> Session" where
  "commit s = s\<lparr>committed := pending s\<rparr>"

definition rollback :: "Session \<Rightarrow> Session" where
  "rollback s = s\<lparr>pending := committed s\<rparr>"


text \<open>
  The constraints of the schema: \<open>CheckConstraint("balance >= 0")\<close> on accounts,
  \<open>CheckConstraint("amount > 0")\<close> on transactions, the primary key, the foreign key
  to accounts, and the unique partial index \<open>idx_unique_idempotency_key\<close> of the
  migration. A flush that writes a constrained column fails with IntegrityError when the
  row violates them and leaves the pending view as it was.
\<close>

definition balance_non_negative :: "Account \<Rightarrow> bool" where
  "balance_non_negative a = (balance a \<ge> 0)"

definition amount_positive :: "Transaction \<Rightarrow> bool" where
  "amount_positive t = (amount t > 0)"

definition idempotency_key_taken :: "Database \<Rightarrow> string \<Rightarrow> bool" where
  "idempotency_key_taken d k = (\<exists>t \<in> ran (transactions d). idempotency_key t = Some k)"

definition insert_allowed :: "Database \<Rightarrow> Transaction \<Rightarrow> bool" where
  "insert_allowed d t =
     (amount_positive t \<and> transactions d (tx_id t) = None \<and> accounts d (account_id t) \<noteq> None
      \<and> (case idempotency_key t of None \<Rightarrow> True | Some k \<Rightarrow> \<not> idempotency_key_taken d k))"

definition balances_non_negative :: "Database \<Rightarrow> bool" where
  "balances_non_negative d = (\<forall>a \<in> ran (accounts d). balance_non_negative a)"

definition get_by_id_account :: "uuid \<Rightarrow> Session \<Rightarrow> Account option" where
  "get_by_id_account i s = accounts (pending s) i"

definition get_by_id_with_lock_account :: "uuid \<Rightarrow> Session \<Rightarrow> Account option" where
  "get_by_id_with_lock_account i s = accounts (pending s) i"

definition get_by_id_transaction :: "uuid \<Rightarrow> Session \<Rightarrow> Transaction option" where
  "get_by_id_transaction i s = transactions (pending s) i"

definition write_account :: "Account \<Rightarrow> Session \<Rightarrow> Session" where
  "write_account a s =
     s\<lparr>pending := (pending s)\<lparr>accounts := (accounts (pending s))(acc_id a \<mapsto> a)\<rparr>\<rparr>"

definition write_transaction :: "Transaction \<Rightarrow> Session \<Rightarrow> Session" where
  "write_transaction t s =
     s\<lparr>pending := (pending s)\<lparr>transactions := (transactions (pending s))(tx_id t \<mapsto> t)\<rparr>\<rparr>"

text \<open>\<open>BaseRepository.create\<close>: add, flush (the INSERT), refresh.\<close>

definition create_transaction_row :: "Transaction \<Rightarrow> Session \<Rightarrow> (exn + Transaction) \<times> Session" where
  "create_transaction_row t s =
     (if insert_allowed (pending s) t then (Inr t, write_transaction t s)
      else (Inl (Exn IntegrityError ''constraint violated on insert into transactions''), s))"

text \<open>
  \<open>BaseRepository.update\<close> of a transaction whose status, bank and error columns were
  assigned: add, flush (an UPDATE of unconstrained columns), refresh.
\<close>

definition update_transaction_row :: "Transaction \<Rightarrow> Session \<Rightarrow> Session" where
  "update_transaction_row t s = write_transaction t s"

text \<open>The flush of an assigned \<open>account.balance\<close>.\<close>

definition flush_balance :: "Account \<Rightarrow> Session \<Rightarrow> (exn + Account) \<times> Session" where
  "flush_balance a s =
     (if balance_non_negative a then (Inr a, write_account a s)
      else (Inl (Exn IntegrityError ''check constraint balance_non_negative''), s))"

definition add_balance :: "Account \<Rightarrow> int \<Rightarrow> Session \<Rightarrow> (exn + Account) \<times> Session" where
  "add_balance account amt s =
     (if amt \<le> 0 then (Inl (Exn ValueError ''Amount must be positive''), s)
      else flush_balance (account\<lparr>balance := balance account + amt\<rparr>) s)"

definition insufficient_balance :: "int \<Rightarrow> int \<Rightarrow> exn" where
  "insufficient_balance available required =
     Exn InsufficientBalanceError
       (''Insufficient balance. Available: '' @ str_decimal available
         @ '', Required: '' @ str_decimal required)"

definition subtract_balance :: "Account \<Rightarrow> int \<Rightarrow> Session \<Rightarrow> (exn + Account) \<times> Session" where
  "subtract_balance account amt s =
     (if amt \<le> 0 then (Inl (Exn ValueError ''Amount must be positive''), s)
      else if balance account < amt then (Inl (insufficient_balance (balance account) amt), s)
      else flush_balance (account\<lparr>balance := balance account - amt\<rparr>) s)"

section \<open>Cache and distributed lock (app/infrastructure/cache/distributed\_lock.py)\<close>

text \<open>
  The cache is a Redis server: a map from keys to a value and the time at which the
  entry expires (every write of this program sets a TTL). Each command is atomic. A
  client call either reaches the server or raises (connection lost, timeout): the
  parameter \<open>fault\<close> of a call says which, and a call that raises leaves the store as
  it was.
\<close>

type_synonym 'v redis = "string \<rightharpoonup> 'v \<times> real"

definition redis_get :: "real \<Rightarrow> 'v redis \<Rightarrow> string \<Rightarrow> 'v option" where
  "redis_get now r k =
     (case r k of None \<Rightarrow> None | Some (v, expires) \<Rightarrow> if now < expires then Some v else None)"

text \<open>\<open>SET key value NX EX ttl\<close>: redis-py answers \<open>True\<close>, or \<open>None\<close> when the key exists.\<close>

definition redis_set_nx_ex :: "real \<Rightarrow> string \<Rightarrow> 'v \<Rightarrow> int \<Rightarrow> 'v redis \<Rightarrow> bool option \<times> 'v redis" where
  "redis_set_nx_ex now k v ttl r =
     (if redis_get now r k = None then (Some True, r(k \<mapsto> (v, now + of_int ttl)))
      else (None, r))"

definition redis_set_ex :: "real \<Rightarrow> string \<Rightarrow> 'v \<Rightarrow> int \<Rightarrow> 'v redis \<Rightarrow> bool option \<times> 'v redis" where
  "redis_set_ex now k v ttl r = (Some True, r(k \<mapsto> (v, now + of_int ttl)))"

definition redis_delete :: "real \<Rightarrow> string \<Rightarrow> 'v redis \<Rightarrow> int \<times> 'v redis" where
  "redis_delete now k r = (if redis_get now r k = None then 0 else 1, r(k := None))"

text \<open>
  The Lua script of \<open>release\<close>:
  \<^verbatim>\<open>if redis.call("GET", KEYS[1]) == ARGV[1] then return redis.call("DEL", KEYS[1]) else return 0 end\<close>
\<close>

definition redis_eval_release :: "real \<Rightarrow> string \<Rightarrow> 'v \<Rightarrow> 'v redis \<Rightarrow> int \<times> 'v redis" where
  "redis_eval_release now k v r =
     (if redis_get now r k = Some v then redis_delete now k r else (0, r))"

definition cache_call :: "exn option \<Rightarrow> ('s \<Rightarrow> 'a \<times> 's) \<Rightarrow> 's \<Rightarrow> (exn + 'a) \<times> 's" where
  "cache_call fault cmd r =
     (case fault of
        Some e \<Rightarrow> (Inl e, r)
      | None \<Rightarrow> (case cmd r of (a, r') \<Rightarrow> (Inr a, r')))"

text \<open>
  A lock instance. \<open>lock_identifier\<close> is the \<open>str(uuid4())\<close> drawn by the constructor,
  passed in as \<open>token\<close>. Deposit and withdrawal completion build their locks with the
  default \<open>blocking=False\<close>, and the synchronous lock has no blocking path; the retry
  loop of the asynchronous \<open>acquire\<close> is not modelled.
\<close>

record Lock =
  lock_key :: string
  lock_ttl :: int
  lock_identifier :: string
  acquired :: bool

definition DistributedLock_init :: "string \<Rightarrow> int \<Rightarrow> string \<Rightarrow> Lock" where
  "DistributedLock_init key ttl token =
     \<lparr>lock_key = ''lock:'' @ key, lock_ttl = min ttl 30, lock_identifier = token, acquired = False\<rparr>"

definition try_acquire_once ::
  "exn option \<Rightarrow> real \<Rightarrow> Lock \<Rightarrow> string redis \<Rightarrow> (exn + bool) \<times> Lock \<times> string redis" where
  "try_acquire_once fault now L r =
     (case cache_call fault (redis_set_nx_ex now (lock_key L) (lock_identifier L) (lock_ttl L)) r of
        (Inl e, r') \<Rightarrow> (Inl e, L, r')
      | (Inr result, r') \<Rightarrow>
          (let a = (case result of None \<Rightarrow> False | Some b \<Rightarrow> b)
           in (Inr a, L\<lparr>acquired := a\<rparr>, r')))"

definition release ::
  "exn option \<Rightarrow> real \<Rightarrow> Lock \<Rightarrow> string redis \<Rightarrow> (exn + bool) \<times> Lock \<times> string redis" where
  "release fault now L r =
     (if \<not> acquired L then (Inr False, L, r)
      else
        (case cache_call fault (redis_eval_release now (lock_key L) (lock_identifier L)) r of
           (Inl e, r') \<Rightarrow> (Inl e, L, r')
         | (Inr released, r') \<Rightarrow>
             (if released \<noteq> 0 then (Inr True, L\<lparr>acquired := False\<rparr>, r')
              else (Inr False, L\<lparr>acquired := False\<rparr>, r'))))"

text \<open>The synchronous lock. \<open>acquire\<close> wraps the cache call in \<open>try ... except Exception\<close>.\<close>

definition SyncDistributedLock_init :: "string \<Rightarrow> int \<Rightarrow> string \<Rightarrow> Lock" where
  "SyncDistributedLock_init key ttl token =
     \<lparr>lock_key = ''lock:'' @ key, lock_ttl = min ttl 30, lock_identifier = token, acquired = False\<rparr>"

definition sync_try_acquire_once ::
  "exn option \<Rightarrow> real \<Rightarrow> Lock \<Rightarrow> string redis \<Rightarrow> (exn + bool) \<times> string redis" where
  "sync_try_acquire_once fault now L r =
     (case cache_call fault (redis_set_nx_ex now (lock_key L) (lock_identifier L) (lock_ttl L)) r of
        (Inl e, r') \<Rightarrow> (Inl e, r')
      | (Inr result, r') \<Rightarrow> (Inr (case result of None \<Rightarrow> False | Some b \<Rightarrow> b), r'))"

definition sync_acquire ::
  "exn option \<Rightarrow> real \<Rightarrow> Lock \<Rightarrow> string redis \<Rightarrow> (exn + bool) \<times> Lock \<times> string redis" where
  "sync_acquire fault now L r =
     (case sync_try_acquire_once fault now L r of
        (Inr a, r') \<Rightarrow> (Inr a, L\<lparr>acquired := a\<rparr>, r')
      | (Inl e, r') \<Rightarrow> (Inr False, L\<lparr>acquired := False\<rparr>, r'))"

text \<open>
  \<open>SyncDistributedLock.release\<close>: \<open>asyncio.run\<close> of the script; on RuntimeError the
  script is submitted again through \<open>run_coroutine_threadsafe\<close>, whose outcome is
  \<open>fallback_fault\<close>. Any other exception propagates.
\<close>

definition sync_release ::
  "exn option \<Rightarrow> exn option \<Rightarrow> real \<Rightarrow> Lock \<Rightarrow> string redis \<Rightarrow> (exn + bool) \<times> Lock \<times> string redis" where
  "sync_release fault fallback_fault now L r =
     (if \<not> acquired L then (Inr False, L, r)
      else
        (case cache_call fault (redis_eval_release now (lock_key L) (lock_identifier L)) r of
           (Inr released, r') \<Rightarrow> (Inr (released \<noteq> 0), L\<lparr>acquired := False\<rparr>, r')
         | (Inl e, r') \<Rightarrow>
             (if exn_class e = RuntimeError then
                (case cache_call fallback_fault
                        (redis_eval_release now (lock_key L) (lock_identifier L)) r' of
                   (Inr released, r'') \<Rightarrow> (Inr (released \<noteq> 0), L\<lparr>acquired := False\<rparr>, r'')
                 | (Inl e', r'') \<Rightarrow> (Inl e', L, r''))
              else (Inl e, L, r'))))"

text \<open>
  What a service holds as \<open>self.redis\<close>: the store, the token and the clock readings of
  the one lock it takes, and the fate of each cache call.
\<close>

record LockEnv =
  redis_store :: "string redis"
  lock_token :: string
  acquire_at :: real
  release_at :: real
  acquire_fault :: "exn option"
  release_fault :: "exn option"
  release_fallback_fault :: "exn option"

text \<open>
  \<open>with SyncDistributedLock(redis, key, ttl) as lock: body\<close>. \<open>__exit__\<close> releases and
  returns False, so an exception of the body propagates, unless the release itself
  raises.
\<close>

definition with_SyncDistributedLock ::
  "LockEnv \<Rightarrow> string \<Rightarrow> int \<Rightarrow> (Lock \<Rightarrow> 'st \<Rightarrow> (exn + 'a) \<times> 'st) \<Rightarrow> 'st
     \<Rightarrow> (exn + 'a) \<times> 'st \<times> string redis" where
  "with_SyncDistributedLock env key ttl body st =
     (case sync_acquire (acquire_fault env) (acquire_at env)
             (SyncDistributedLock_init key ttl (lock_token env)) (redis_store env) of
        (Inl e, L1, r1) \<Rightarrow> (Inl e, st, r1)
      | (Inr a, L1, r1) \<Rightarrow>
          (case body L1 st of
             (res, st') \<Rightarrow>
               (case sync_release (release_fault env) (release_fallback_fault env)
                       (release_at env) L1 r1 of
                  (Inl e, L2, r2) \<Rightarrow> (Inl e, st', r2)
                | (Inr released, L2, r2) \<Rightarrow> (res, st', r2))))"

section \<open>Transaction services (app/domain/services)\<close>

text \<open>
  \<open>_trigger_webhook_if_configured\<close> reads the user, inserts a webhook delivery row,
  commits and enqueues the delivery task. The users and webhook deliveries tables and the
  task queue are outside the modelled state: the call is given by its effect on the
  session, which is nothing when no webhook URL is configured, a commit when a delivery
  is queued, and an exception when the insert or the broker fails.
\<close>

datatype webhook_effect = NotConfigured | Queued | WebhookRaises exn

definition trigger_webhook_if_configured :: "webhook_effect \<Rightarrow> Session \<Rightarrow> (exn + unit) \<times> Session" where
  "trigger_webhook_if_configured wh s =
     (case wh of
        NotConfigured \<Rightarrow> (Inr (), s)
      | Queued \<Rightarrow> (Inr (), commit s)
      | WebhookRaises e \<Rightarrow> (Inl e, s))"

definition transaction_not_found :: "uuid \<Rightarrow> exn" where
  "transaction_not_found tid = Exn ValueError (''Transaction '' @ tid @ '' not found'')"

definition account_not_found :: "uuid \<Rightarrow> exn" where
  "account_not_found aid = Exn AccountNotFoundError (''Account '' @ aid @ '' not found'')"

definition concurrent_update :: "uuid \<Rightarrow> exn" where
  "concurrent_update aid =
     Exn ConcurrentUpdateError (''Account '' @ aid @ '' is locked by another process'')"

definition get_transaction_or_raise :: "uuid \<Rightarrow> Session \<Rightarrow> exn + Transaction" where
  "get_transaction_or_raise tid s =
     (case get_by_id_transaction tid s of
        None \<Rightarrow> Inl (transaction_not_found tid)
      | Some t \<Rightarrow> Inr t)"

definition update_and_commit :: "Transaction \<Rightarrow> Session \<Rightarrow> Session" where
  "update_and_commit t s = commit (update_transaction_row t s)"



text \<open>
  \<open>create_pending_withdrawal\<close> and \<open>create_pending_deposit\<close>. \<open>new_id\<close> is the
  \<open>uuid4()\<close> default of the primary key.
\<close>

definition create_pending_withdrawal ::
  "uuid \<Rightarrow> uuid \<Rightarrow> int \<Rightarrow> string \<Rightarrow> string option \<Rightarrow> string option \<Rightarrow> Session
     \<Rightarrow> (exn + Transaction) \<times> Session" where
  "create_pending_withdrawal new_id aid amt cur idem task_id s =
     (case get_by_id_with_lock_account aid s of
        None \<Rightarrow> (Inl (account_not_found aid), s)
      | Some account \<Rightarrow>
          (if balance account < amt then (Inl (insufficient_balance (balance account) amt), s)
           else
             (case create_transaction_row
                     \<lparr>tx_id = new_id, account_id = aid, transaction_type = WITHDRAWAL,
                      amount = amt, currency = cur, status = PENDING,
                      bank_transaction_id = None, bank_response = None, error_code = None,
                      error_message = None, idempotency_key = idem, celery_task_id = task_id\<rparr> s of
                (Inl e, s') \<Rightarrow> (Inl e, s')
              | (Inr created, s') \<Rightarrow> (Inr created, commit s'))))"

definition create_pending_deposit ::
  "uuid \<Rightarrow> uuid \<Rightarrow> int \<Rightarrow> string \<Rightarrow> string option \<Rightarrow> string option \<Rightarrow> Session
     \<Rightarrow> (exn + Transaction) \<times> Session" where
  "create_pending_deposit new_id aid amt cur idem task_id s =
     (case get_by_id_account aid s of
        None \<Rightarrow> (Inl (account_not_found aid), s)
      | Some account \<Rightarrow>
          (case create_transaction_row
                  \<lparr>tx_id = new_id, account_id = aid, transaction_type = DEPOSIT,
                   amount = amt, currency = cur, status = PENDING,
                   bank_transaction_id = None, bank_response = None, error_code = None,
                   error_message = None, idempotency_key = idem, celery_task_id = task_id\<rparr> s of
             (Inl e, s') \<Rightarrow> (Inl e, s')
           | (Inr created, s') \<Rightarrow> (Inr created, commit s')))"

text \<open>
  \<open>_complete_withdrawal_locked\<close> and \<open>_complete_deposit_locked\<close>: the body of the
  \<open>try\<close>, and the handler that rolls back and raises again.
\<close>

definition complete_withdrawal_locked ::
  "webhook_effect \<Rightarrow> Transaction \<Rightarrow> string \<Rightarrow> string option \<Rightarrow> Session
     \<Rightarrow> (exn + Transaction) \<times> Session" where
  "complete_withdrawal_locked wh t btid br s =
     (case get_by_id_with_lock_account (account_id t) s of
        None \<Rightarrow> (Inl (account_not_found (account_id t)), rollback s)
      | Some account \<Rightarrow>
          (case subtract_balance account (amount t) s of
             (Inl e, s1) \<Rightarrow> (Inl e, rollback s1)
           | (Inr account', s1) \<Rightarrow>
               (let t' = t\<lparr>status := SUCCESS, bank_transaction_id := Some btid, bank_response := br\<rparr>;
                    s2 = update_and_commit t' s1
                in (case trigger_webhook_if_configured wh s2 of
                      (Inl e, s3) \<Rightarrow> (Inl e, rollback s3)
                    | (Inr u, s3) \<Rightarrow> (Inr t', s3)))))"

definition complete_deposit_locked ::
  "webhook_effect \<Rightarrow> Transaction \<Rightarrow> string \<Rightarrow> string option \<Rightarrow> Session
     \<Rightarrow> (exn + Transaction) \<times> Session" where
  "complete_deposit_locked wh t btid br s =
     (case get_by_id_with_lock_account (account_id t) s of
        None \<Rightarrow> (Inl (account_not_found (account_id t)), rollback s)
      | Some account \<Rightarrow>
          (case add_balance account (amount t) s of
             (Inl e, s1) \<Rightarrow> (Inl e, rollback s1)
           | (Inr account', s1) \<Rightarrow>
               (let t' = t\<lparr>status := SUCCESS, bank_transaction_id := Some btid, bank_response := br\<rparr>;
                    s2 = update_and_commit t' s1
                in (case trigger_webhook_if_configured wh s2 of
                      (Inl e, s3) \<Rightarrow> (Inl e, rollback s3)
                    | (Inr u, s3) \<Rightarrow> (Inr t', s3)))))"

text \<open>
  \<open>complete_withdrawal\<close> and \<open>complete_deposit\<close>. \<open>redis\<close> is the service's
  \<open>self.redis\<close>: \<open>None\<close> takes the branch that relies on the row lock alone. The
  result carries the cache's store after the call.
\<close>

definition complete_withdrawal ::
  "LockEnv option \<Rightarrow> webhook_effect \<Rightarrow> uuid \<Rightarrow> string \<Rightarrow> string option \<Rightarrow> Session
     \<Rightarrow> (exn + Transaction) \<times> Session \<times> string redis option" where
  "complete_withdrawal redis wh tid btid br s =
     (case get_transaction_or_raise tid s of
        Inl e \<Rightarrow> (Inl e, s, map_option redis_store redis)
      | Inr t \<Rightarrow>
          (case redis of
             Some env \<Rightarrow>
               (case with_SyncDistributedLock env (''account:'' @ account_id t) 10
                       (\<lambda>lock st.
                          if \<not> acquired lock then (Inl (concurrent_update (account_id t)), st)
                          else complete_withdrawal_locked wh t btid br st) s of
                  (res, s', r') \<Rightarrow> (res, s', Some r'))
           | None \<Rightarrow>
               (case complete_withdrawal_locked wh t btid br s of
                  (res, s') \<Rightarrow> (res, s', None))))"

definition complete_deposit ::
  "LockEnv option \<Rightarrow> webhook_effect \<Rightarrow> uuid \<Rightarrow> string \<Rightarrow> string option \<Rightarrow> Session
     \<Rightarrow> (exn + Transaction) \<times> Session \<times> string redis option" where
  "complete_deposit redis wh tid btid br s =
     (case get_transaction_or_raise tid s of
        Inl e \<Rightarrow> (Inl e, s, map_option redis_store redis)
      | Inr t \<Rightarrow>
          (case redis of
             Some env \<Rightarrow>
               (case with_SyncDistributedLock env (''account:'' @ account_id t) 10
                       (\<lambda>lock st.
                          if \<not> acquired lock then (Inl (concurrent_update (account_id t)), st)
                          else complete_deposit_locked wh t btid br st) s of
                  (res, s', r') \<Rightarrow> (res, s', Some r'))
           | None \<Rightarrow>
               (case complete_deposit_locked wh t btid br s of
                  (res, s') \<Rightarrow> (res, s', None))))"




section \<open>Worker processor (app/workers/transaction\_processor.py, strategies.py)\<close>

datatype BankResponseStatus =
  BANK_SUCCESS | BANK_FAILED | BANK_TIMEOUT | BANK_INSUFFICIENT_FUNDS | BANK_UNAVAILABLE

record BankResponse =
  br_status :: BankResponseStatus
  br_transaction_id :: "string option"
  br_message :: "string option"
  br_error_code :: "string option"


datatype pyval = PyStr string | PyNone | PyBool bool | PyInt int

type_synonym result_dict = "(string \<times> pyval) list"

text \<open>
  What a delivery of the job finds around it: the task's \<open>request.retries\<close> and
  \<open>max_retries\<close>, the outcome of the bank call (an exception or a response), the
  effect of the webhook trigger, and the dataclass \<open>repr\<close> that \<open>str(bank_response)\<close>
  uses. The task arguments are taken as parsed: \<open>tx_id\<close> is the UUID of
  \<open>transaction_id\<close>. The services are built as \<open>service_class(db)\<close>, so their
  \<open>redis\<close> is \<open>None\<close>.
\<close>

record worker_env =
  retries :: nat
  max_retries :: nat
  bank_call :: "exn + BankResponse"
  webhook :: webhook_effect
  repr_BankResponse :: "BankResponse \<Rightarrow> string"





definition str_BankResponseStatus :: "BankResponseStatus \<Rightarrow> string" where
  "str_BankResponseStatus b =
     (case b of BANK_SUCCESS \<Rightarrow> ''SUCCESS'' | BANK_FAILED \<Rightarrow> ''FAILED'' | BANK_TIMEOUT \<Rightarrow> ''TIMEOUT''
      | BANK_INSUFFICIENT_FUNDS \<Rightarrow> ''INSUFFICIENT_FUNDS'' | BANK_UNAVAILABLE \<Rightarrow> ''UNAVAILABLE'')"










section \<open>Idempotency (app/core/services/idempotency\_service.py, app/api/middleware/idempotency.py)\<close>

text \<open>
  The service stores JSON documents in the cache; a document is modelled by the value it
  encodes, \<open>json.dumps\<close> and \<open>json.loads\<close> being inverse on such values. The
  built-ins the middleware calls on a response body are parameters: the UTF-8 codec
  (decoding gives \<open>None\<close> where Python raises UnicodeDecodeError) and the extraction of
  the \<open>id\<close> member of a JSON body. \<open>'t\<close> is the type of decoded text. The cache is
  taken to answer every call of the middleware.
\<close>

type_synonym bytes = "8 word list"

record 't codec =
  utf8_decode :: "bytes \<Rightarrow> 't option"
  utf8_encode :: "'t \<Rightarrow> bytes"
  json_id :: "bytes \<Rightarrow> string option"

text \<open>Encoding what was decoded gives the bytes back, as UTF-8 does.\<close>

definition codec_roundtrip :: "'t codec \<Rightarrow> bool" where
  "codec_roundtrip c = (\<forall>b t. utf8_decode c b = Some t \<longrightarrow> utf8_encode c t = b)"

text \<open>
  The two documents: \<open>{status: processing, created_at}\<close> and \<open>{status: completed,
  response_body, status_code, headers, resource_id, created_at, completed_at}\<close>.
\<close>

datatype 't idem_entry =
    ProcessingEntry real
  | CompletedEntry 't int "string \<rightharpoonup> string" "string option" real

record IdempotencyService =
  completed_response_ttl :: int

definition IdempotencyService_init :: "int \<Rightarrow> IdempotencyService" where
  "IdempotencyService_init idempotency_key_ttl_hours =
     \<lparr>completed_response_ttl = idempotency_key_ttl_hours * 60 * 60\<rparr>"

definition PROCESSING_LOCK_TTL :: int where
  "PROCESSING_LOCK_TTL = 60"

definition IDEMPOTENCY_HEADER :: string where
  "IDEMPOTENCY_HEADER = ''Idempotency-Key''"

definition get_key :: "string \<Rightarrow> string" where
  "get_key ikey = ''idempotency:'' @ ikey"

definition check_existing :: "real \<Rightarrow> string \<Rightarrow> 't idem_entry redis \<Rightarrow> 't idem_entry option" where
  "check_existing now ikey cache = redis_get now cache (get_key ikey)"

definition acquire_lock :: "real \<Rightarrow> string \<Rightarrow> 't idem_entry redis \<Rightarrow> bool \<times> 't idem_entry redis" where
  "acquire_lock now ikey cache =
     (case redis_set_nx_ex now (get_key ikey) (ProcessingEntry now)
             PROCESSING_LOCK_TTL cache of
        (success, cache') \<Rightarrow> (success = Some True, cache'))"

definition release_lock :: "real \<Rightarrow> string \<Rightarrow> 't idem_entry redis \<Rightarrow> 't idem_entry redis" where
  "release_lock now ikey cache = snd (redis_delete now (get_key ikey) cache)"

definition save_response ::
  "IdempotencyService \<Rightarrow> 't codec \<Rightarrow> real \<Rightarrow> string \<Rightarrow> bytes \<Rightarrow> int \<Rightarrow> (string \<rightharpoonup> string)
     \<Rightarrow> string option \<Rightarrow> 't idem_entry redis \<Rightarrow> (exn + unit) \<times> 't idem_entry redis" where
  "save_response svc c now ikey response_body code hdrs resource_id cache =
     (case utf8_decode c response_body of
        None \<Rightarrow> (Inl (Exn UnicodeDecodeError ''utf-8 codec cannot decode the body''), cache)
      | Some text \<Rightarrow>
          (Inr (),
           snd (redis_set_ex now (get_key ikey)
                  (CompletedEntry text code hdrs resource_id now)
                  (completed_response_ttl svc) cache)))"

text \<open>
  Requests and responses. A response is what its constructor is given: \<open>Response\<close>
  takes raw bytes, \<open>JSONResponse\<close> a dictionary. The response of the inner application
  carries a body iterator and a header list; \<open>dict(response.headers)\<close> keeps the first
  value of each name, and header lookup on the request ignores case.
\<close>

record request =
  req_method :: string
  req_path :: string
  req_headers :: "(string \<times> string) list"
  req_body :: bytes

datatype body = RawBody bytes | JsonBody "(string \<times> string) list"

record response =
  status_code :: int
  content :: body
  headers :: "string \<rightharpoonup> string"
  media_type :: "string option"

record inner_response =
  inner_status_code :: int
  body_iterator :: "bytes list"
  inner_headers :: "(string \<times> string) list"
  inner_media_type :: "string option"

definition headers_get :: "string \<Rightarrow> (string \<times> string) list \<Rightarrow> string option" where
  "headers_get name hs = map_of (map (\<lambda>(k, v). (lower k, v)) hs) (lower name)"

definition requires_idempotency :: "request \<Rightarrow> bool" where
  "requires_idempotency req =
     (if req_method req \<notin> {''POST''} then False
      else list_ex (\<lambda>path. str_in path (req_path req)) [''/api/v1/deposits'', ''/api/v1/withdrawals''])"

definition as_response :: "inner_response \<Rightarrow> response" where
  "as_response r =
     \<lparr>status_code = inner_status_code r, content = RawBody (concat (body_iterator r)),
      headers = map_of (inner_headers r), media_type = inner_media_type r\<rparr>"

text \<open>
  \<open>IdempotencyMiddleware.dispatch\<close>. \<open>call_next\<close> is the inner application: it
  returns a response or raises. \<open>now\<close> is the time of the calls made on arrival,
  \<open>later\<close> the time of those made after the inner application has answered.
\<close>

definition dispatch ::
  "IdempotencyService \<Rightarrow> 't codec \<Rightarrow> real \<Rightarrow> real \<Rightarrow> (request \<Rightarrow> exn + inner_response)
     \<Rightarrow> request \<Rightarrow> 't idem_entry redis \<Rightarrow> (exn + response) \<times> 't idem_entry redis" where
  "dispatch svc c now later call_next req cache =
     (if \<not> requires_idempotency req then
        (case call_next req of Inl e \<Rightarrow> (Inl e, cache) | Inr r \<Rightarrow> (Inr (as_response r), cache))
      else
        (case headers_get IDEMPOTENCY_HEADER (req_headers req) of
           None \<Rightarrow>
             (Inr \<lparr>status_code = 400,
                   content = JsonBody
                     [(''error'', ''Bad Request''),
                      (''message'', ''Missing required header: '' @ IDEMPOTENCY_HEADER),
                      (''details'', ''Idempotency key is required for this operation to ensure request safety and prevent duplicate processing.'')],
                   headers = Map.empty, media_type = Some ''application/json''\<rparr>, cache)
         | Some ikey \<Rightarrow>
             (if ikey = [] then
                (Inr \<lparr>status_code = 400,
                      content = JsonBody
                        [(''error'', ''Bad Request''),
                         (''message'', ''Missing required header: '' @ IDEMPOTENCY_HEADER),
                         (''details'', ''Idempotency key is required for this operation to ensure request safety and prevent duplicate processing.'')],
                      headers = Map.empty, media_type = Some ''application/json''\<rparr>, cache)
              else
                (case acquire_lock now ikey cache of
                   (lock_acquired, cache1) \<Rightarrow>
                     (if \<not> lock_acquired then
                        (case check_existing now ikey cache1 of
                           Some (CompletedEntry response_body code cached_headers rid ts) \<Rightarrow>
                             (Inr \<lparr>status_code = code,
                                   content = RawBody (utf8_encode c response_body),
                                   headers = cached_headers(IDEMPOTENCY_HEADER \<mapsto> ikey),
                                   media_type = Some ''application/json''\<rparr>, cache1)
                         | _ \<Rightarrow>
                             (Inr \<lparr>status_code = 409,
                                   content = JsonBody
                                     [(''error'', ''conflict''),
                                      (''message'', ''this request is already being processed. please retry in a few seconds.''),
                                      (''idempotency_key'', ikey)],
                                   headers = [''Retry-After'' \<mapsto> ''5'',
                                              IDEMPOTENCY_HEADER \<mapsto> ikey],
                                   media_type = Some ''application/json''\<rparr>, cache1))
                      else
                        (case call_next req of
                           Inl e \<Rightarrow> (Inl e, release_lock later ikey cache1)
                         | Inr r \<Rightarrow>
                             (let response_body = concat (body_iterator r) in
                              if inner_status_code r < 400 then
                                (case save_response svc c later ikey response_body
                                        (inner_status_code r) (map_of (inner_headers r))
                                        (json_id c response_body) cache1 of
                                   (Inl e, cache2) \<Rightarrow>
                                     (Inl e, release_lock later ikey cache2)
                                 | (Inr u, cache2) \<Rightarrow> (Inr (as_response r), cache2))
                              else
                                (Inr (as_response r),
                                 release_lock later ikey cache1))))))))"

section \<open>Webhook delivery (app/workers/tasks/webhook\_tasks.py)\<close>

datatype WebhookDeliveryStatus = WD_PENDING | WD_SENDING | WD_SUCCESS | WD_FAILED

record WebhookDelivery =
  wd_id :: uuid
  wd_transaction_id :: uuid
  webhook_url :: string
  wd_status :: WebhookDeliveryStatus
  attempt_count :: int
  max_attempts :: int
  http_status_code :: "int option"
  response_body :: "string option"
  wd_error_message :: "string option"
  payload :: string

record http_response =
  http_code :: int
  http_text :: string

definition WEBHOOK_TIMEOUT_SECONDS :: int where
  "WEBHOOK_TIMEOUT_SECONDS = 30"

definition WEBHOOK_MAX_RETRIES :: nat where
  "WEBHOOK_MAX_RETRIES = 5"

text \<open>The class attributes of \<open>WebhookDeliveryTask\<close>.\<close>

definition autoretry_for :: "exn_class set" where
  "autoretry_for = {RequestError, HTTPStatusError}"

definition retry_kwargs_max_retries :: nat where
  "retry_kwargs_max_retries = WEBHOOK_MAX_RETRIES"

definition retry_backoff :: bool where
  "retry_backoff = True"

definition retry_backoff_max :: nat where
  "retry_backoff_max = 600"

definition retry_jitter :: bool where
  "retry_jitter = True"

text \<open>
  The countdown Celery computes for an automatic retry when \<open>retry_backoff\<close> is set
  (\<open>get_exponential_backoff_interval\<close> of the library, with factor 1) after \<open>n\<close>
  retries: the \<open>n\<close>-th power of two capped at \<open>retry_backoff_max\<close>, and with \<open>retry_jitter\<close> a random
  number of seconds up to that, given here by the draw \<open>u\<close>.
\<close>

definition retry_countdown :: "nat \<Rightarrow> nat \<Rightarrow> nat" where
  "retry_countdown n u =
     (let countdown = min retry_backoff_max (2 ^ n)
      in if retry_jitter then u mod (countdown + 1) else countdown)"

definition str_int :: "int \<Rightarrow> string" where
  "str_int i = (if i < 0 then ''-'' else []) @ digits (nat \<bar>i\<bar>)"

text \<open>
  The request of one attempt. \<open>post\<close> is the outcome of building and sending it: a
  response, or the exception raised (class RequestError for httpx's network and timeout
  errors). \<open>status_error\<close> is the message of the HTTPStatusError that
  \<open>raise_for_status\<close> raises.
\<close>

record attempt_env =
  request_retries :: nat
  post :: "exn + http_response"
  status_error :: string

text \<open>The \<open>with httpx.Client\<close> block: it returns the result dictionary or raises.\<close>

definition post_and_record ::
  "attempt_env \<Rightarrow> WebhookDelivery \<Rightarrow> exn + (result_dict \<times> WebhookDelivery)" where
  "post_and_record env delivery =
     (case post env of
        Inl e \<Rightarrow> Inl e
      | Inr resp \<Rightarrow>
          (if 500 \<le> http_code resp \<and> http_code resp < 600
           then Inl (Exn HTTPStatusError (status_error env))
           else
             (let d1 = delivery\<lparr>http_status_code := Some (http_code resp),
                                response_body := Some (take 1000 (http_text resp))\<rparr>;
                  d2 = (if 200 \<le> http_code resp \<and> http_code resp < 300
                        then d1\<lparr>wd_status := WD_SUCCESS\<rparr>
                        else d1\<lparr>wd_status := WD_FAILED,
                               wd_error_message := Some (''HTTP '' @ str_int (http_code resp)
                                  @ '': '' @ take 500 (http_text resp))\<rparr>)
              in Inr ([(''success'', PyBool (wd_status d2 = WD_SUCCESS)),
                       (''http_status_code'', PyInt (http_code resp)),
                       (''response'', PyStr (take 200 (http_text resp)))], d2))))"

text \<open>
  \<open>send_webhook_notification\<close> on the table of deliveries; every branch commits. An
  exception in the result is one the task raises, which hands the delivery to the
  automatic retry.
\<close>

definition send_webhook_notification ::
  "attempt_env \<Rightarrow> uuid \<Rightarrow> (uuid \<rightharpoonup> WebhookDelivery)
     \<Rightarrow> (exn + result_dict) \<times> (uuid \<rightharpoonup> WebhookDelivery)" where
  "send_webhook_notification env did tbl =
     (case tbl did of
        None \<Rightarrow>
          (Inr [(''success'', PyBool False), (''error'', PyStr ''Webhook delivery not found'')], tbl)
      | Some delivery \<Rightarrow>
          (let d0 = delivery\<lparr>attempt_count := attempt_count delivery + 1, wd_status := WD_SENDING\<rparr>
           in (case post_and_record env d0 of
                 Inr (result, d) \<Rightarrow> (Inr result, tbl(did \<mapsto> d))
               | Inl exc \<Rightarrow>
                   (if exn_class exc \<in> {RequestError, HTTPStatusError} then
                      (Inl exc,
                       tbl(did \<mapsto> d0\<lparr>wd_error_message := Some (take 500 (str_exn exc)),
                                       wd_status := (if request_retries env \<ge> WEBHOOK_MAX_RETRIES - 1
                                                     then WD_FAILED else WD_PENDING)\<rparr>))
                    else
                      (Inr [(''success'', PyBool False), (''error'', PyStr (str_exn exc))],
                       tbl(did \<mapsto> d0\<lparr>wd_status := WD_FAILED,
                                       wd_error_message :=
                                         Some (''Unexpected error: '' @ take 500 (str_exn exc))\<rparr>))))))"

text \<open>
  \<open>DLQTask.on_failure\<close> takes a task to have failed for good, and sends it to the dead
  letter queue, when \<open>request.retries >= max_retries\<close>.
\<close>

definition retries_exhausted :: "nat \<Rightarrow> nat \<Rightarrow> bool" where
  "retries_exhausted task_retries task_max_retries = (task_retries \<ge> task_max_retries)"

section \<open>Webhook signatures (app/core/security.py)\<close>

text \<open>
  \<open>hmac.new(key, msg, hashlib.sha256)\<close> and \<open>str.encode()\<close> are the standard
  library's: the keyed digest and the text encoding are parameters. \<open>hexdigest\<close>
  writes each byte of the digest as two lowercase hexadecimal digits.
  \<open>hmac.compare_digest\<close> on two \<open>str\<close> arguments compares them when both are
  ASCII only, and raises TypeError otherwise.
\<close>

record hmac_env =
  encode :: "string \<Rightarrow> bytes"
  hmac_sha256 :: "bytes \<Rightarrow> bytes \<Rightarrow> bytes"

definition hex_digit :: "nat \<Rightarrow> char" where
  "hex_digit n = ''0123456789abcdef'' ! n"

definition hexdigest :: "bytes \<Rightarrow> string" where
  "hexdigest bs = concat (map (\<lambda>w. [hex_digit (unat w div 16), hex_digit (unat w mod 16)]) bs)"

definition is_ascii :: "string \<Rightarrow> bool" where
  "is_ascii s = list_all (\<lambda>c. (of_char c :: nat) < 128) s"

definition compare_digest :: "string \<Rightarrow> string \<Rightarrow> exn + bool" where
  "compare_digest a b =
     (if \<not> is_ascii a \<or> \<not> is_ascii b
      then Inl (Exn TypeError ''comparing strings with non-ASCII characters is not supported'')
      else Inr (a = b))"

definition generate_webhook_signature :: "hmac_env \<Rightarrow> string \<Rightarrow> string \<Rightarrow> string" where
  "generate_webhook_signature env pl secret =
     hexdigest (hmac_sha256 env (encode env secret) (encode env pl))"

definition verify_webhook_signature :: "hmac_env \<Rightarrow> string \<Rightarrow> string \<Rightarrow> string \<Rightarrow> exn + bool" where
  "verify_webhook_signature env pl signature secret =
     (let expected_signature = hexdigest (hmac_sha256 env (encode env secret) (encode env pl))
      in compare_digest signature expected_signature)"

section \<open>Example data\<close>

text \<open>
  One account holding 100.00 and three transactions on it: a deposit of 50.00 already
  completed, a withdrawal of 150.00 being processed, and a pending withdrawal of 30.00.
\<close>

definition alice :: Account where
  "alice = \<lparr>acc_id = ''A'', user_id = ''U'', balance = 10000, acc_currency = ''USD''\<rparr>"

definition deposit_done :: Transaction where
  "deposit_done =
     \<lparr>tx_id = ''D'', account_id = ''A'', transaction_type = DEPOSIT, amount = 5000,
      currency = ''USD'', status = SUCCESS, bank_transaction_id = Some ''BANK-DEP-1'',
      bank_response = Some ''Deposit processed successfully'', error_code = None,
      error_message = None, idempotency_key = None, celery_task_id = None\<rparr>"

definition withdrawal_big :: Transaction where
  "withdrawal_big =
     \<lparr>tx_id = ''W'', account_id = ''A'', transaction_type = WITHDRAWAL, amount = 15000,
      currency = ''USD'', status = PROCESSING, bank_transaction_id = None,
      bank_response = None, error_code = None,
      error_message = None, idempotency_key = None, celery_task_id = None\<rparr>"

definition withdrawal_small :: Transaction where
  "withdrawal_small =
     \<lparr>tx_id = ''S'', account_id = ''A'', transaction_type = WITHDRAWAL, amount = 3000,
      currency = ''USD'', status = PENDING, bank_transaction_id = None,
      bank_response = None, error_code = None,
      error_message = None, idempotency_key = None, celery_task_id = None\<rparr>"

definition bank_db :: Database where
  "bank_db =
     \<lparr>accounts = [''A'' \<mapsto> alice],
      transactions = [''D'' \<mapsto> deposit_done, ''W'' \<mapsto> withdrawal_big,
                      ''S'' \<mapsto> withdrawal_small]\<rparr>"



definition delivery :: "nat \<Rightarrow> BankResponse \<Rightarrow> worker_env" where
  "delivery n br =
     \<lparr>retries = n, max_retries = 3, bank_call = Inr br, webhook = NotConfigured,
      repr_BankResponse = (\<lambda>b. str_BankResponseStatus (br_status b))\<rparr>"

text \<open>
  Two lock instances on the account's key, and the store after \<open>lock_B\<close> acquired the
  lease at time 0 for 10 seconds, let it expire, and \<open>lock_C\<close> acquired it at time 11.
\<close>

definition lock_B :: Lock where
  "lock_B = DistributedLock_init ''account:A'' 10 ''token-B''"

definition lock_C :: Lock where
  "lock_C = DistributedLock_init ''account:A'' 10 ''token-C''"

definition store_after_B :: "string redis" where
  "store_after_B = snd (snd (try_acquire_once None 0 lock_B Map.empty))"

definition store_after_C :: "string redis" where
  "store_after_C = snd (snd (try_acquire_once None 11 lock_C store_after_B))"

definition cache_down :: LockEnv where
  "cache_down =
     \<lparr>redis_store = Map.empty, lock_token = ''token-B'', acquire_at = 0, release_at = 1,
      acquire_fault = Some (Exn ConnectionError ''Connection refused''),
      release_fault = Some (Exn ConnectionError ''Connection refused''),
      release_fallback_fault = None\<rparr>"

text \<open>
  A cache that answers the \<open>SET NX EX\<close> of \<open>acquire\<close> and is unreachable by the time
  of \<open>release\<close>.
\<close>

definition cache_lost_after_acquire :: LockEnv where
  "cache_lost_after_acquire =
     \<lparr>redis_store = Map.empty, lock_token = ''token-B'', acquire_at = 0, release_at = 1,
      acquire_fault = None,
      release_fault = Some (Exn ConnectionError ''Connection refused''),
      release_fallback_fault = None\<rparr>"

text \<open>
  A deposit request with key \<open>k3\<close>, an inner application that accepts it with status
  202, and the codec restricted to ASCII bodies, on which UTF-8 decoding keeps every byte.
\<close>

definition ascii_codec :: "bytes codec" where
  "ascii_codec =
     \<lparr>utf8_decode = (\<lambda>b. if list_all (\<lambda>w. w < 128) b then Some b else None),
      utf8_encode = (\<lambda>t. t), json_id = (\<lambda>b. None)\<rparr>"

definition deposit_request :: request where
  "deposit_request =
     \<lparr>req_method = ''POST'', req_path = ''/api/v1/deposits'',
      req_headers = [(''authorization'', ''Bearer x''), (''idempotency-key'', ''k3'')],
      req_body = [123, 125]\<rparr>"

definition accept_deposit :: "request \<Rightarrow> exn + inner_response" where
  "accept_deposit req =
     Inr \<lparr>inner_status_code = 202, body_iterator = [[123], [125]],
          inner_headers = [(''content-type'', ''application/json'')],
          inner_media_type = None\<rparr>"

text \<open>A delivery waiting to be sent, and the attempts on it.\<close>

definition pending_delivery :: WebhookDelivery where
  "pending_delivery =
     \<lparr>wd_id = ''WD'', wd_transaction_id = ''D'', webhook_url = ''https://example.com/webhook'',
      wd_status = WD_PENDING, attempt_count = 0, max_attempts = 5, http_status_code = None,
      response_body = None, wd_error_message = None, payload = ''{}''\<rparr>"

definition answered :: "nat \<Rightarrow> int \<Rightarrow> attempt_env" where
  "answered n code =
     \<lparr>request_retries = n, post = Inr \<lparr>http_code = code, http_text = ''body''\<rparr>,
      status_error = ''Server error''\<rparr>"

definition timed_out :: "nat \<Rightarrow> attempt_env" where
  "timed_out n =
     \<lparr>request_retries = n, post = Inl (Exn RequestError ''timed out''),
      status_error = ''Server error''\<rparr>"

section \<open>Theorems\<close>

lemma tripped_breaker_eq:
  "tripped_breaker = \<lparr>failure_threshold = 5, timeout_seconds = 30, success_threshold = 2,
      cb_state = OPEN, failure_count = 5, success_count = 0, last_failure_time = Some 100\<rparr>"
  by (simp add: tripped_breaker_def CircuitBreaker_init_def record_failure_def
      transition_to_open_def eval_nat_numeral Let_def)

text \<open>
  C8. In state OPEN with a recorded last failure time \<open>t\<close>, a call of
  \<open>can_execute\<close> at a time \<open>now\<close> with \<open>now - t \<ge> timeout_seconds\<close> returns true and
  moves the breaker to HALF\_OPEN (resetting both counters); a call made earlier returns
  false and leaves the breaker as it was, in state OPEN.
\<close>

theorem can_execute_open_after_timeout:
  assumes "cb_state cb = OPEN" and "last_failure_time cb = Some t"
  shows "(now - t \<ge> of_int (timeout_seconds cb) \<longrightarrow>
            can_execute now cb =
              (True, cb\<lparr>cb_state := HALF_OPEN, failure_count := 0, success_count := 0\<rparr>)
            \<and> cb_state (snd (can_execute now cb)) = HALF_OPEN)
       \<and> (now - t < of_int (timeout_seconds cb) \<longrightarrow>
            can_execute now cb = (False, cb) \<and> cb_state (snd (can_execute now cb)) = OPEN)"
  using assms
  by (simp add: can_execute_def should_attempt_reset_def transition_to_half_open_def)

theorem can_execute_open_after_timeout_witness:
  "cb_state tripped_breaker = OPEN \<and> last_failure_time tripped_breaker = Some 100
   \<and> fst (can_execute 130 tripped_breaker) = True
   \<and> cb_state (snd (can_execute 130 tripped_breaker)) = HALF_OPEN
   \<and> can_execute 129.5 tripped_breaker = (False, tripped_breaker)"
  using can_execute_open_after_timeout [of tripped_breaker 100 130]
        can_execute_open_after_timeout [of tripped_breaker 100 "129.5"]
  by (simp add: tripped_breaker_eq)

subsection \<open>Messages that do not mention ``not found''\<close>









subsection \<open>Balance operations\<close>

lemma ran_upd_cases: "x \<in> ran (m(k \<mapsto> v)) \<Longrightarrow> x = v \<or> x \<in> ran m"
  by (auto simp: ran_def split: if_splits)

lemma flush_balance_committed: "committed (snd (flush_balance a s)) = committed s"
  by (simp add: flush_balance_def write_account_def)

lemma flush_balance_pending:
  "balances_non_negative (pending s) \<Longrightarrow> balances_non_negative (pending (snd (flush_balance a s)))"
  by (auto simp: flush_balance_def write_account_def balances_non_negative_def
      dest!: ran_upd_cases)

lemma trigger_webhook_inv:
  "balances_non_negative (committed s) \<Longrightarrow> balances_non_negative (pending s) \<Longrightarrow>
   balances_non_negative (committed (snd (trigger_webhook_if_configured wh s)))
   \<and> balances_non_negative (pending (snd (trigger_webhook_if_configured wh s)))"
  by (cases wh) (simp_all add: trigger_webhook_if_configured_def commit_def)

lemma update_and_commit_inv:
  "balances_non_negative (pending s) \<Longrightarrow>
   balances_non_negative (committed (update_and_commit t s))
   \<and> balances_non_negative (pending (update_and_commit t s))"
  by (simp add: update_and_commit_def commit_def update_transaction_row_def
      write_transaction_def balances_non_negative_def)

lemma rollback_committed: "committed (rollback s) = committed s"
  by (simp add: rollback_def)

lemma add_balance_inv:
  "balances_non_negative (pending s) \<Longrightarrow> balances_non_negative (pending (snd (add_balance a amt s)))"
  "committed (snd (add_balance a amt s)) = committed s"
  by (simp_all add: add_balance_def flush_balance_pending flush_balance_committed)

lemma subtract_balance_inv:
  "balances_non_negative (pending s) \<Longrightarrow> balances_non_negative (pending (snd (subtract_balance a amt s)))"
  "committed (snd (subtract_balance a amt s)) = committed s"
  by (simp_all add: subtract_balance_def flush_balance_pending flush_balance_committed)

lemma complete_deposit_locked_inv:
  assumes "balances_non_negative (committed s)" and "balances_non_negative (pending s)"
  shows "balances_non_negative (committed (snd (complete_deposit_locked wh t b r s)))"
proof (cases "get_by_id_with_lock_account (account_id t) s")
  case None
  then show ?thesis using assms by (simp add: complete_deposit_locked_def rollback_def)
next
  case (Some a)
  obtain res s1 where ab: "add_balance a (amount t) s = (res, s1)" by (cases "add_balance a (amount t) s")
  have p1: "balances_non_negative (pending s1)" and c1: "committed s1 = committed s"
    using add_balance_inv [where s=s and a=a and amt="amount t"] assms ab by simp_all
  show ?thesis
  proof (cases res)
    case (Inl e)
    then show ?thesis using Some ab c1 assms by (simp add: complete_deposit_locked_def rollback_def)
  next
    case (Inr a')
    let ?t' = "t\<lparr>status := SUCCESS, bank_transaction_id := Some b, bank_response := r\<rparr>"
    let ?s2 = "update_and_commit ?t' s1"
    have i2: "balances_non_negative (committed ?s2) \<and> balances_non_negative (pending ?s2)"
      using update_and_commit_inv [OF p1] .
    obtain w s3 where tw: "trigger_webhook_if_configured wh ?s2 = (w, s3)"
      by (cases "trigger_webhook_if_configured wh ?s2")
    have "balances_non_negative (committed s3)"
      using trigger_webhook_inv [of ?s2 wh] i2 tw by simp
    then show ?thesis using Some ab Inr tw
      by (cases w) (simp_all add: complete_deposit_locked_def Let_def rollback_def)
  qed
qed

lemma complete_withdrawal_locked_inv:
  assumes "balances_non_negative (committed s)" and "balances_non_negative (pending s)"
  shows "balances_non_negative (committed (snd (complete_withdrawal_locked wh t b r s)))"
proof (cases "get_by_id_with_lock_account (account_id t) s")
  case None
  then show ?thesis using assms by (simp add: complete_withdrawal_locked_def rollback_def)
next
  case (Some a)
  obtain res s1 where ab: "subtract_balance a (amount t) s = (res, s1)"
    by (cases "subtract_balance a (amount t) s")
  have p1: "balances_non_negative (pending s1)" and c1: "committed s1 = committed s"
    using subtract_balance_inv [where s=s and a=a and amt="amount t"] assms ab by simp_all
  show ?thesis
  proof (cases res)
    case (Inl e)
    then show ?thesis using Some ab c1 assms by (simp add: complete_withdrawal_locked_def rollback_def)
  next
    case (Inr a')
    let ?t' = "t\<lparr>status := SUCCESS, bank_transaction_id := Some b, bank_response := r\<rparr>"
    let ?s2 = "update_and_commit ?t' s1"
    have i2: "balances_non_negative (committed ?s2) \<and> balances_non_negative (pending ?s2)"
      using update_and_commit_inv [OF p1] .
    obtain w s3 where tw: "trigger_webhook_if_configured wh ?s2 = (w, s3)"
      by (cases "trigger_webhook_if_configured wh ?s2")
    have "balances_non_negative (committed s3)"
      using trigger_webhook_inv [of ?s2 wh] i2 tw by simp
    then show ?thesis using Some ab Inr tw
      by (cases w) (simp_all add: complete_withdrawal_locked_def Let_def rollback_def)
  qed
qed

text \<open>
  C3. For an account whose balance is not negative: \<open>add_balance\<close> either raises
  ValueError (amount not positive) and leaves the session as it was, or strictly
  increases the balance; \<open>subtract_balance\<close> raises InsufficientBalanceError and leaves
  the session as it was whenever \<open>balance < amount\<close>, raises nothing but ValueError and
  InsufficientBalanceError, and on success leaves a balance that is not negative. Deposit
  and withdrawal completion, run on a session whose committed and pending balances are
  all non-negative, leave every committed balance non-negative.
\<close>

theorem balance_stays_non_negative:
  assumes "0 \<le> balance account"
  shows "(\<forall>a' s'. add_balance account amt s = (Inr a', s') \<longrightarrow>
            balance a' = balance account + amt \<and> balance account < balance a')
       \<and> (\<forall>e s'. add_balance account amt s = (Inl e, s') \<longrightarrow>
            exn_class e = ValueError \<and> amt \<le> 0 \<and> s' = s)
       \<and> (balance account < amt \<longrightarrow>
            subtract_balance account amt s = (Inl (insufficient_balance (balance account) amt), s))
       \<and> (\<forall>e s'. subtract_balance account amt s = (Inl e, s') \<longrightarrow>
            exn_class e \<in> {ValueError, InsufficientBalanceError} \<and> s' = s)
       \<and> (\<forall>a' s'. subtract_balance account amt s = (Inr a', s') \<longrightarrow>
            balance a' = balance account - amt \<and> 0 \<le> balance a')
       \<and> (balances_non_negative (committed s) \<and> balances_non_negative (pending s) \<longrightarrow>
            balances_non_negative (committed (snd (complete_deposit_locked wh t btid br s)))
            \<and> balances_non_negative (committed (snd (complete_withdrawal_locked wh t btid br s))))"
proof (intro conjI)
  show "\<forall>a' s'. add_balance account amt s = (Inr a', s') \<longrightarrow>
            balance a' = balance account + amt \<and> balance account < balance a'"
    by (auto simp: add_balance_def flush_balance_def split: if_splits)
  show "\<forall>e s'. add_balance account amt s = (Inl e, s') \<longrightarrow>
            exn_class e = ValueError \<and> amt \<le> 0 \<and> s' = s"
    using assms
    by (auto simp: add_balance_def flush_balance_def balance_non_negative_def split: if_splits)
  show "balance account < amt \<longrightarrow>
            subtract_balance account amt s = (Inl (insufficient_balance (balance account) amt), s)"
    using assms by (auto simp: subtract_balance_def)
  show "\<forall>e s'. subtract_balance account amt s = (Inl e, s') \<longrightarrow>
            exn_class e \<in> {ValueError, InsufficientBalanceError} \<and> s' = s"
    by (auto simp: subtract_balance_def flush_balance_def balance_non_negative_def
        insufficient_balance_def split: if_splits)
  show "\<forall>a' s'. subtract_balance account amt s = (Inr a', s') \<longrightarrow>
            balance a' = balance account - amt \<and> 0 \<le> balance a'"
    by (auto simp: subtract_balance_def flush_balance_def split: if_splits)
  show "balances_non_negative (committed s) \<and> balances_non_negative (pending s) \<longrightarrow>
            balances_non_negative (committed (snd (complete_deposit_locked wh t btid br s)))
            \<and> balances_non_negative (committed (snd (complete_withdrawal_locked wh t btid br s)))"
    using complete_deposit_locked_inv complete_withdrawal_locked_inv by blast
qed

lemma bank_db_non_negative: "balances_non_negative bank_db"
  by (simp add: bank_db_def balances_non_negative_def balance_non_negative_def alice_def)

theorem balance_stays_non_negative_witness:
  "0 \<le> balance alice
   \<and> fst (add_balance alice 5000 (SessionLocal bank_db)) = Inr (alice\<lparr>balance := 15000\<rparr>)
   \<and> subtract_balance alice 15000 (SessionLocal bank_db)
       = (Inl (insufficient_balance 10000 15000), SessionLocal bank_db)
   \<and> fst (subtract_balance alice 10000 (SessionLocal bank_db)) = Inr (alice\<lparr>balance := 0\<rparr>)
   \<and> balances_non_negative
       (committed (snd (complete_deposit_locked NotConfigured deposit_done ''B'' None (SessionLocal bank_db))))
   \<and> balances_non_negative
       (committed (snd (complete_withdrawal_locked NotConfigured withdrawal_big ''B'' None (SessionLocal bank_db))))"
proof -
  have a: "0 \<le> balance alice" by (simp add: alice_def)
  have inv: "balances_non_negative (committed (SessionLocal bank_db))
     \<and> balances_non_negative (pending (SessionLocal bank_db))"
    by (simp add: SessionLocal_def bank_db_non_negative)
  note T = balance_stays_non_negative [OF a, of 15000 "SessionLocal bank_db" NotConfigured
      withdrawal_big "''B''" None]
  note D = balance_stays_non_negative [OF a, of 5000 "SessionLocal bank_db" NotConfigured
      deposit_done "''B''" None]
  have 1: "fst (add_balance alice 5000 (SessionLocal bank_db)) = Inr (alice\<lparr>balance := 15000\<rparr>)"
    by (simp add: add_balance_def flush_balance_def balance_non_negative_def alice_def)
  have 2: "fst (subtract_balance alice 10000 (SessionLocal bank_db)) = Inr (alice\<lparr>balance := 0\<rparr>)"
    by (simp add: subtract_balance_def flush_balance_def balance_non_negative_def alice_def)
  have 3: "subtract_balance alice 15000 (SessionLocal bank_db)
       = (Inl (insufficient_balance 10000 15000), SessionLocal bank_db)"
    using T [THEN conjunct2, THEN conjunct2, THEN conjunct1] by (simp add: alice_def)
  note 4 = D [THEN conjunct2, THEN conjunct2, THEN conjunct2, THEN conjunct2, THEN conjunct2,
      THEN mp, OF inv]
  note 5 = T [THEN conjunct2, THEN conjunct2, THEN conjunct2, THEN conjunct2, THEN conjunct2,
      THEN mp, OF inv]
  show ?thesis using a 1 2 3 4 5 by simp
qed

subsection \<open>Creating a pending withdrawal\<close>

text \<open>
  C6. On an existing account: when \<open>balance < amount\<close>, \<open>create_pending_withdrawal\<close>
  raises InsufficientBalanceError and returns the session as it found it, so no row is
  created and no balance changes. When \<open>balance \<ge> amount\<close> and the insert meets the
  constraints of the table (positive amount, fresh primary key, idempotency key absent or
  unused), a transaction with status PENDING and type WITHDRAWAL is inserted and
  committed, and the accounts table is committed as it was: nothing is debited.
\<close>

theorem create_pending_withdrawal_checks_balance:
  assumes "get_by_id_with_lock_account aid s = Some account"
  shows "(balance account < amt \<longrightarrow>
            create_pending_withdrawal new_id aid amt cur idem task s
              = (Inl (insufficient_balance (balance account) amt), s))
       \<and> (amt \<le> balance account \<and> 0 < amt \<and> transactions (pending s) new_id = None
            \<and> (\<forall>k. idem = Some k \<longrightarrow> \<not> idempotency_key_taken (pending s) k) \<longrightarrow>
            (\<exists>t s'. create_pending_withdrawal new_id aid amt cur idem task s = (Inr t, s')
               \<and> tx_id t = new_id \<and> account_id t = aid \<and> amount t = amt
               \<and> status t = PENDING \<and> transaction_type t = WITHDRAWAL
               \<and> transactions (committed s') = (transactions (pending s))(new_id \<mapsto> t)
               \<and> accounts (committed s') = accounts (pending s)
               \<and> pending s' = committed s'))"
proof (intro conjI impI)
  assume "balance account < amt"
  then show "create_pending_withdrawal new_id aid amt cur idem task s
              = (Inl (insufficient_balance (balance account) amt), s)"
    using assms by (simp add: create_pending_withdrawal_def)
next
  let ?row = "\<lparr>tx_id = new_id, account_id = aid, transaction_type = WITHDRAWAL,
                amount = amt, currency = cur, status = PENDING,
                bank_transaction_id = None, bank_response = None, error_code = None,
                error_message = None, idempotency_key = idem, celery_task_id = task\<rparr>"
  assume h: "amt \<le> balance account \<and> 0 < amt \<and> transactions (pending s) new_id = None
            \<and> (\<forall>k. idem = Some k \<longrightarrow> \<not> idempotency_key_taken (pending s) k)"
  have acc: "accounts (pending s) aid = Some account"
    using assms by (simp add: get_by_id_with_lock_account_def)
  have ok: "insert_allowed (pending s) ?row"
    using h acc by (cases idem) (simp_all add: insert_allowed_def amount_positive_def)
  have "create_pending_withdrawal new_id aid amt cur idem task s
          = (Inr ?row, commit (write_transaction ?row s))"
    using assms h ok by (simp add: create_pending_withdrawal_def create_transaction_row_def)
  then show "\<exists>t s'. create_pending_withdrawal new_id aid amt cur idem task s = (Inr t, s')
               \<and> tx_id t = new_id \<and> account_id t = aid \<and> amount t = amt
               \<and> status t = PENDING \<and> transaction_type t = WITHDRAWAL
               \<and> transactions (committed s') = (transactions (pending s))(new_id \<mapsto> t)
               \<and> accounts (committed s') = accounts (pending s)
               \<and> pending s' = committed s'"
    by (simp add: commit_def write_transaction_def)
qed

theorem create_pending_withdrawal_checks_balance_witness:
  "get_by_id_with_lock_account ''A'' (SessionLocal bank_db) = Some alice
   \<and> create_pending_withdrawal ''N'' ''A'' 20000 ''USD'' None None (SessionLocal bank_db)
       = (Inl (insufficient_balance 10000 20000), SessionLocal bank_db)
   \<and> (\<exists>t s'. create_pending_withdrawal ''N'' ''A'' 3000 ''USD'' None None (SessionLocal bank_db)
                = (Inr t, s')
         \<and> status t = PENDING \<and> transaction_type t = WITHDRAWAL
         \<and> transactions (committed s') ''N'' = Some t
         \<and> accounts (committed s') = accounts bank_db)"
proof -
  have g: "get_by_id_with_lock_account ''A'' (SessionLocal bank_db) = Some alice"
    by (simp add: get_by_id_with_lock_account_def SessionLocal_def bank_db_def)
  have fresh: "transactions (pending (SessionLocal bank_db)) ''N'' = None"
    by (simp add: SessionLocal_def bank_db_def)
  note lo = create_pending_withdrawal_checks_balance
      [OF g, of 20000 "''N''" "''USD''" None None, THEN conjunct1]
  note hi = create_pending_withdrawal_checks_balance
      [OF g, of 3000 "''N''" "''USD''" None None, THEN conjunct2]
  have 1: "create_pending_withdrawal ''N'' ''A'' 20000 ''USD'' None None (SessionLocal bank_db)
       = (Inl (insufficient_balance 10000 20000), SessionLocal bank_db)"
    using lo by (simp add: alice_def)
  have "\<exists>t s'. create_pending_withdrawal ''N'' ''A'' 3000 ''USD'' None None (SessionLocal bank_db)
                = (Inr t, s')
         \<and> tx_id t = ''N'' \<and> account_id t = ''A'' \<and> amount t = 3000
         \<and> status t = PENDING \<and> transaction_type t = WITHDRAWAL
         \<and> transactions (committed s')
              = (transactions (pending (SessionLocal bank_db)))(''N'' \<mapsto> t)
         \<and> accounts (committed s') = accounts (pending (SessionLocal bank_db))
         \<and> pending s' = committed s'"
    using hi fresh by (simp add: alice_def)
  then obtain t s' where
    "create_pending_withdrawal ''N'' ''A'' 3000 ''USD'' None None (SessionLocal bank_db) = (Inr t, s')"
    "status t = PENDING" "transaction_type t = WITHDRAWAL"
    "transactions (committed s') = (transactions (pending (SessionLocal bank_db)))(''N'' \<mapsto> t)"
    "accounts (committed s') = accounts (pending (SessionLocal bank_db))"
    by blast
  then have 2: "\<exists>t s'. create_pending_withdrawal ''N'' ''A'' 3000 ''USD'' None None (SessionLocal bank_db)
                = (Inr t, s')
         \<and> status t = PENDING \<and> transaction_type t = WITHDRAWAL
         \<and> transactions (committed s') ''N'' = Some t
         \<and> accounts (committed s') = accounts bank_db"
    by (simp add: SessionLocal_def)
  show ?thesis using g 1 2 by blast
qed

subsection \<open>The processor, step by step\<close>





lemma lower_append: "lower (a @ b) = lower a @ lower b"
  by (simp add: lower_def)







lemma complete_withdrawal_locked_value:
  assumes "accounts d (account_id t) = Some a" and "acc_id a = account_id t" and "0 < amount t"
    and "amount t \<le> balance a"
  shows "complete_withdrawal_locked wh t b r (SessionLocal d)
           = ((case wh of WebhookRaises e \<Rightarrow> Inl e
               | _ \<Rightarrow> Inr (t\<lparr>status := SUCCESS, bank_transaction_id := Some b, bank_response := r\<rparr>)),
              SessionLocal
                (d\<lparr>accounts := (accounts d)(account_id t \<mapsto> a\<lparr>balance := balance a - amount t\<rparr>),
                   transactions := (transactions d)
                     (tx_id t \<mapsto> t\<lparr>status := SUCCESS, bank_transaction_id := Some b,
                                     bank_response := r\<rparr>)\<rparr>))"
  using assms
  by (cases wh; simp add: complete_withdrawal_locked_def get_by_id_with_lock_account_def
      subtract_balance_def flush_balance_def balance_non_negative_def Let_def
      update_and_commit_def commit_def update_transaction_row_def write_transaction_def
      write_account_def trigger_webhook_if_configured_def rollback_def SessionLocal_def)+







subsection \<open>Withdrawal completion\<close>





lemma bank_db_rows:
  "transactions bank_db ''W'' = Some withdrawal_big"
  "transactions bank_db ''S'' = Some withdrawal_small"
  "transactions bank_db ''D'' = Some deposit_done"
  "accounts bank_db ''A'' = Some alice"
  by (simp_all add: bank_db_def)

lemma example_rows:
  "tx_id withdrawal_big = ''W''" "account_id withdrawal_big = ''A''" "amount withdrawal_big = 15000"
  "tx_id withdrawal_small = ''S''" "account_id withdrawal_small = ''A''" "amount withdrawal_small = 3000"
  "tx_id deposit_done = ''D''" "account_id deposit_done = ''A''" "amount deposit_done = 5000"
  "status deposit_done = SUCCESS"
  "acc_id alice = ''A''" "balance alice = 10000"
  by (simp_all add: withdrawal_big_def withdrawal_small_def deposit_done_def alice_def)





subsection \<open>Duplicate deliveries\<close>










subsection \<open>Distributed lock\<close>

lemma release_not_acquired:
  "\<not> acquired L \<Longrightarrow> release f now L r = (Inr False, L, r)"
  by (simp add: release_def)

lemma sync_release_not_acquired:
  "\<not> acquired L \<Longrightarrow> sync_release f g now L r = (Inr False, L, r)"
  by (simp add: sync_release_def)

lemma release_foreign:
  assumes "redis_get now r (lock_key L) \<noteq> Some (lock_identifier L)"
  shows "fst (release None now L r) = Inr False" and "snd (snd (release None now L r)) = r"
    and "\<not> acquired (fst (snd (release None now L r)))"
  using assms by (simp_all add: release_def cache_call_def redis_eval_release_def)

lemma sync_release_foreign:
  assumes "redis_get now r (lock_key L) \<noteq> Some (lock_identifier L)"
  shows "fst (sync_release None g now L r) = Inr False"
    and "snd (snd (sync_release None g now L r)) = r"
    and "\<not> acquired (fst (snd (sync_release None g now L r)))"
  using assms by (simp_all add: sync_release_def cache_call_def redis_eval_release_def)

lemma release_own:
  assumes "acquired L" and "redis_get now r (lock_key L) = Some (lock_identifier L)"
  shows "fst (release None now L r) = Inr True"
    and "snd (snd (release None now L r)) = r(lock_key L := None)"
    and "\<not> acquired (fst (snd (release None now L r)))"
  using assms
  by (simp_all add: release_def cache_call_def redis_eval_release_def redis_delete_def)

lemma sync_release_own:
  assumes "acquired L" and "redis_get now r (lock_key L) = Some (lock_identifier L)"
  shows "fst (sync_release None g now L r) = Inr True"
    and "snd (snd (sync_release None g now L r)) = r(lock_key L := None)"
    and "\<not> acquired (fst (snd (sync_release None g now L r)))"
  using assms
  by (simp_all add: sync_release_def cache_call_def redis_eval_release_def redis_delete_def)

lemma release_clears_acquired: "\<not> acquired (fst (snd (release None now L r)))"
  by (simp add: release_def cache_call_def split: prod.splits)

lemma sync_release_clears_acquired: "\<not> acquired (fst (snd (sync_release None g now L r)))"
  by (simp add: sync_release_def cache_call_def split: prod.splits)

text \<open>
  C7. With the cache answering, \<open>release\<close> of a lock instance \<open>B\<close> (asynchronous and
  synchronous alike) deletes the lease and returns true exactly when \<open>B\<close> holds
  \<open>acquired\<close> and the value stored under the key is \<open>B\<close>'s own token; whenever the
  stored value is not \<open>B\<close>'s token the store is left as it was and the result is false.
  So if another instance \<open>C\<close> on the same key, with a different token, holds the lease,
  \<open>B\<close>'s release returns false and \<open>C\<close>'s lease is still in place. After a release the
  instance is no longer \<open>acquired\<close>, and a repeated release returns false without touching
  the store.
\<close>

theorem release_is_owner_fenced:
  "(acquired B \<and> redis_get now r (lock_key B) = Some (lock_identifier B) \<longrightarrow>
      fst (release None now B r) = Inr True
      \<and> snd (snd (release None now B r)) = r(lock_key B := None)
      \<and> fst (sync_release None g now B r) = Inr True
      \<and> snd (snd (sync_release None g now B r)) = r(lock_key B := None))
   \<and> (redis_get now r (lock_key B) \<noteq> Some (lock_identifier B) \<longrightarrow>
      fst (release None now B r) = Inr False \<and> snd (snd (release None now B r)) = r
      \<and> fst (sync_release None g now B r) = Inr False
      \<and> snd (snd (sync_release None g now B r)) = r)
   \<and> (lock_key C = lock_key B \<and> lock_identifier C \<noteq> lock_identifier B
        \<and> redis_get now r (lock_key C) = Some (lock_identifier C) \<longrightarrow>
      fst (release None now B r) = Inr False
      \<and> redis_get now (snd (snd (release None now B r))) (lock_key C) = Some (lock_identifier C)
      \<and> fst (sync_release None g now B r) = Inr False
      \<and> redis_get now (snd (snd (sync_release None g now B r))) (lock_key C)
          = Some (lock_identifier C))
   \<and> release f now' (fst (snd (release None now B r))) r'
        = (Inr False, fst (snd (release None now B r)), r')
   \<and> sync_release f g' now' (fst (snd (sync_release None g now B r))) r'
        = (Inr False, fst (snd (sync_release None g now B r)), r')"
proof (intro conjI impI)
  assume a: "acquired B \<and> redis_get now r (lock_key B) = Some (lock_identifier B)"
  then show "fst (release None now B r) = Inr True"
    and "snd (snd (release None now B r)) = r(lock_key B := None)"
    and "fst (sync_release None g now B r) = Inr True"
    and "snd (snd (sync_release None g now B r)) = r(lock_key B := None)"
    by (simp_all add: release_own sync_release_own)
next
  assume "redis_get now r (lock_key B) \<noteq> Some (lock_identifier B)"
  then show "fst (release None now B r) = Inr False"
    and "snd (snd (release None now B r)) = r"
    and "fst (sync_release None g now B r) = Inr False"
    and "snd (snd (sync_release None g now B r)) = r"
    by (simp_all add: release_foreign sync_release_foreign)
next
  assume c: "lock_key C = lock_key B \<and> lock_identifier C \<noteq> lock_identifier B
        \<and> redis_get now r (lock_key C) = Some (lock_identifier C)"
  then have n: "redis_get now r (lock_key B) \<noteq> Some (lock_identifier B)" by auto
  show "fst (release None now B r) = Inr False"
    and "fst (sync_release None g now B r) = Inr False"
    using n by (simp_all add: release_foreign sync_release_foreign)
  show "redis_get now (snd (snd (release None now B r))) (lock_key C) = Some (lock_identifier C)"
    unfolding release_foreign(2) [OF n] using c by blast
  show "redis_get now (snd (snd (sync_release None g now B r))) (lock_key C)
          = Some (lock_identifier C)"
    unfolding sync_release_foreign(2) [OF n] using c by blast
next
  show "release f now' (fst (snd (release None now B r))) r'
        = (Inr False, fst (snd (release None now B r)), r')"
    by (rule release_not_acquired) (rule release_clears_acquired)
  show "sync_release f g' now' (fst (snd (sync_release None g now B r))) r'
        = (Inr False, fst (snd (sync_release None g now B r)), r')"
    by (rule sync_release_not_acquired) (rule sync_release_clears_acquired)
qed

lemma lock_scenario:
  "try_acquire_once None 0 lock_B Map.empty
     = (Inr True, lock_B\<lparr>acquired := True\<rparr>, [''lock:account:A'' \<mapsto> (''token-B'', 10)])"
  "store_after_B = [''lock:account:A'' \<mapsto> (''token-B'', 10)]"
  "fst (try_acquire_once None 5 lock_C store_after_B) = Inr False"
  "store_after_C = [''lock:account:A'' \<mapsto> (''token-C'', 21)]"
  "redis_get 12 store_after_C ''lock:account:A'' = Some ''token-C''"
  "lock_key lock_B = ''lock:account:A''" "lock_key lock_C = ''lock:account:A''"
  "lock_identifier lock_B = ''token-B''" "lock_identifier lock_C = ''token-C''"
  "fst (try_acquire_once None 0 lock_B Map.empty) = Inr True"
  "redis_get 12 store_after_C (lock_key lock_C) = Some (lock_identifier lock_C)"
  by (simp_all add: store_after_B_def store_after_C_def try_acquire_once_def cache_call_def
      redis_set_nx_ex_def redis_get_def lock_B_def lock_C_def DistributedLock_init_def)

theorem release_is_owner_fenced_witness:
  "fst (try_acquire_once None 0 lock_B Map.empty) = Inr True
   \<and> fst (try_acquire_once None 5 lock_C store_after_B) = Inr False
   \<and> redis_get 12 store_after_C (lock_key lock_C) = Some (lock_identifier lock_C)
   \<and> release None 12 (lock_B\<lparr>acquired := True\<rparr>) store_after_C
       = (Inr False, lock_B\<lparr>acquired := False\<rparr>, store_after_C)
   \<and> sync_release None None 12 (lock_B\<lparr>acquired := True\<rparr>) store_after_C
       = (Inr False, lock_B\<lparr>acquired := False\<rparr>, store_after_C)
   \<and> release None 13 (lock_B\<lparr>acquired := False\<rparr>) store_after_C
       = (Inr False, lock_B\<lparr>acquired := False\<rparr>, store_after_C)
   \<and> fst (release None 13 (lock_C\<lparr>acquired := True\<rparr>) store_after_C) = Inr True
   \<and> redis_get 13 (snd (snd (release None 13 (lock_C\<lparr>acquired := True\<rparr>) store_after_C)))
        ''lock:account:A'' = None"
proof -
  note T = release_is_owner_fenced
    [where B = "lock_B\<lparr>acquired := True\<rparr>" and C = lock_C and now = 12 and r = store_after_C
       and g = None and f = None and g' = None and now' = 13 and r' = store_after_C]
  note U = release_is_owner_fenced
    [where B = "lock_C\<lparr>acquired := True\<rparr>" and C = lock_C and now = 13 and r = store_after_C
       and g = None and f = None and g' = None and now' = 13 and r' = store_after_C]
  have b: "fst (snd (release None 12 (lock_B\<lparr>acquired := True\<rparr>) store_after_C))
             = lock_B\<lparr>acquired := False\<rparr>"
    "fst (snd (sync_release None None 12 (lock_B\<lparr>acquired := True\<rparr>) store_after_C))
             = lock_B\<lparr>acquired := False\<rparr>"
    by (simp_all add: release_def sync_release_def cache_call_def redis_eval_release_def
        redis_get_def lock_scenario)
  have 1: "release None 12 (lock_B\<lparr>acquired := True\<rparr>) store_after_C
       = (Inr False, lock_B\<lparr>acquired := False\<rparr>, store_after_C)"
    "sync_release None None 12 (lock_B\<lparr>acquired := True\<rparr>) store_after_C
       = (Inr False, lock_B\<lparr>acquired := False\<rparr>, store_after_C)"
    using T [THEN conjunct2, THEN conjunct1] b
    by (simp_all add: lock_scenario(2-) redis_get_def prod_eq_iff)
  have 2: "release None 13 (lock_B\<lparr>acquired := False\<rparr>) store_after_C
       = (Inr False, lock_B\<lparr>acquired := False\<rparr>, store_after_C)"
    using T [THEN conjunct2, THEN conjunct2, THEN conjunct2, THEN conjunct1] b by simp
  have 3: "fst (release None 13 (lock_C\<lparr>acquired := True\<rparr>) store_after_C) = Inr True"
    "redis_get 13 (snd (snd (release None 13 (lock_C\<lparr>acquired := True\<rparr>) store_after_C)))
        ''lock:account:A'' = None"
    using U [THEN conjunct1] by (simp_all add: lock_scenario redis_get_def)
  show ?thesis using 1 2 3 lock_scenario(3,10,11) by blast
qed

subsection \<open>Cache failures at lock acquisition and release\<close>

lemma sync_acquire_fault:
  "sync_acquire (Some e) now L r = (Inr False, L\<lparr>acquired := False\<rparr>, r)"
  by (simp add: sync_acquire_def sync_try_acquire_once_def cache_call_def)

lemma sync_acquire_total:
  "\<exists>b r'. sync_acquire fault now L r = (Inr b, L\<lparr>acquired := b\<rparr>, r')"
  by (cases fault)
     (auto simp: sync_acquire_def sync_try_acquire_once_def cache_call_def
        split: prod.splits sum.splits)

lemma with_lock_acquire_fault:
  assumes "acquire_fault env = Some e"
    and "\<And>L st. \<not> acquired L \<Longrightarrow> body L st = (Inl x, st)"
  shows "with_SyncDistributedLock env key ttl body st = (Inl x, st, redis_store env)"
  using assms
  by (simp add: with_SyncDistributedLock_def sync_acquire_fault sync_release_not_acquired)

lemma sync_release_fault:
  assumes "acquired L" and "exn_class e \<noteq> RuntimeError"
  shows "sync_release (Some e) g now L r = (Inl e, L, r)"
  using assms by (simp add: sync_release_def cache_call_def)

lemma sync_acquire_free:
  assumes "redis_get now r (lock_key L) = None"
  shows "sync_acquire None now L r
           = (Inr True, L\<lparr>acquired := True\<rparr>,
              r(lock_key L \<mapsto> (lock_identifier L, now + of_int (lock_ttl L))))"
  using assms
  by (simp add: sync_acquire_def sync_try_acquire_once_def cache_call_def redis_set_nx_ex_def)

lemma with_lock_release_fault:
  assumes "acquire_fault env = None"
    and "redis_get (acquire_at env) (redis_store env) (''lock:'' @ key) = None"
    and "release_fault env = Some e" and "exn_class e \<noteq> RuntimeError"
  shows "with_SyncDistributedLock env key ttl body st
           = (Inl e,
              snd (body ((SyncDistributedLock_init key ttl (lock_token env))\<lparr>acquired := True\<rparr>) st),
              (redis_store env)(''lock:'' @ key
                 \<mapsto> (lock_token env, acquire_at env + of_int (min ttl 30))))"
proof -
  let ?L = "SyncDistributedLock_init key ttl (lock_token env)"
  have k: "lock_key ?L = ''lock:'' @ key" "lock_identifier ?L = lock_token env"
    "lock_ttl ?L = min ttl 30"
    by (simp_all add: SyncDistributedLock_init_def)
  have a: "sync_acquire None (acquire_at env) ?L (redis_store env)
      = (Inr True, ?L\<lparr>acquired := True\<rparr>,
         (redis_store env)(''lock:'' @ key \<mapsto> (lock_token env, acquire_at env + of_int (min ttl 30))))"
    using sync_acquire_free [where L = ?L and now = "acquire_at env" and r = "redis_store env"]
      assms(2) unfolding k by simp
  have rl: "sync_release (Some e) g now (?L\<lparr>acquired := True\<rparr>) r = (Inl e, ?L\<lparr>acquired := True\<rparr>, r)"
    for g now r
    by (rule sync_release_fault) (simp_all add: assms(4))
  show ?thesis
    unfolding with_SyncDistributedLock_def assms(1) assms(3) a
    by (simp add: rl split: prod.splits)
qed

lemma complete_release_fault:
  assumes "get_transaction_or_raise tid s = Inr t" and "acquire_fault env = None"
    and "redis_get (acquire_at env) (redis_store env) (''lock:account:'' @ account_id t) = None"
    and "release_fault env = Some x" and "exn_class x \<noteq> RuntimeError"
  shows "complete_withdrawal (Some env) wh tid btid resp s
           = (Inl x, snd (complete_withdrawal_locked wh t btid resp s),
              Some ((redis_store env)(''lock:account:'' @ account_id t
                      \<mapsto> (lock_token env, acquire_at env + 10))))"
    and "complete_deposit (Some env) wh tid btid resp s
           = (Inl x, snd (complete_deposit_locked wh t btid resp s),
              Some ((redis_store env)(''lock:account:'' @ account_id t
                      \<mapsto> (lock_token env, acquire_at env + 10))))"
proof -
  have k: "redis_get (acquire_at env) (redis_store env) (''lock:'' @ ''account:'' @ account_id t)
             = None"
    using assms(3) by simp
  note W = with_lock_release_fault [OF assms(2) k assms(4) assms(5)]
  show "complete_withdrawal (Some env) wh tid btid resp s
           = (Inl x, snd (complete_withdrawal_locked wh t btid resp s),
              Some ((redis_store env)(''lock:account:'' @ account_id t
                      \<mapsto> (lock_token env, acquire_at env + 10))))"
    unfolding complete_withdrawal_def assms(1) sum.case option.case W by simp
  show "complete_deposit (Some env) wh tid btid resp s
           = (Inl x, snd (complete_deposit_locked wh t btid resp s),
              Some ((redis_store env)(''lock:account:'' @ account_id t
                      \<mapsto> (lock_token env, acquire_at env + 10))))"
    unfolding complete_deposit_def assms(1) sum.case option.case W by simp
qed

lemma cache_lost_after_acquire_fields:
  "acquire_fault cache_lost_after_acquire = None"
  "release_fault cache_lost_after_acquire = Some (Exn ConnectionError ''Connection refused'')"
  "redis_store cache_lost_after_acquire = Map.empty"
  "lock_token cache_lost_after_acquire = ''token-B''"
  "acquire_at cache_lost_after_acquire = 0"
  by (simp_all add: cache_lost_after_acquire_def)

lemma get_small:
  "get_transaction_or_raise ''S'' (SessionLocal bank_db) = Inr withdrawal_small"
  by (simp add: get_transaction_or_raise_def get_by_id_transaction_def SessionLocal_def
      bank_db_rows)

text \<open>
  C10, as the claim states it, fails when the cache is lost between \<open>acquire\<close> and
  \<open>release\<close>: \<open>release\<close> catches RuntimeError only and \<open>__exit__\<close> calls it, so
  the completion of the withdrawal of 30.00 commits the debit and the status SUCCESS and
  then raises the cache's ConnectionError, not ConcurrentUpdateError; the lease stays in
  the store until it expires.
\<close>

theorem release_fault_uncaught_counterexample:
  "acquire_fault cache_lost_after_acquire = None
   \<and> complete_withdrawal (Some cache_lost_after_acquire) NotConfigured ''S'' ''BANK-X'' None
        (SessionLocal bank_db)
       = (Inl (Exn ConnectionError ''Connection refused''),
          SessionLocal
            (bank_db\<lparr>accounts := (accounts bank_db)(''A'' \<mapsto> alice\<lparr>balance := 7000\<rparr>),
                     transactions := (transactions bank_db)
                       (''S'' \<mapsto> withdrawal_small\<lparr>status := SUCCESS,
                                     bank_transaction_id := Some ''BANK-X'',
                                     bank_response := None\<rparr>)\<rparr>),
          Some [''lock:account:A'' \<mapsto> (''token-B'', 10)])
   \<and> exn_class (Exn ConnectionError ''Connection refused'') \<noteq> ConcurrentUpdateError"
proof -
  have v: "complete_withdrawal_locked NotConfigured withdrawal_small ''BANK-X'' None
             (SessionLocal bank_db)
       = (Inr (withdrawal_small\<lparr>status := SUCCESS, bank_transaction_id := Some ''BANK-X'',
                                bank_response := None\<rparr>),
          SessionLocal
            (bank_db\<lparr>accounts := (accounts bank_db)(''A'' \<mapsto> alice\<lparr>balance := 7000\<rparr>),
                     transactions := (transactions bank_db)
                       (''S'' \<mapsto> withdrawal_small\<lparr>status := SUCCESS,
                                     bank_transaction_id := Some ''BANK-X'',
                                     bank_response := None\<rparr>)\<rparr>))"
    using complete_withdrawal_locked_value
      [where d = bank_db and t = withdrawal_small and a = alice and wh = NotConfigured
         and b = "''BANK-X''" and r = None]
    by (simp add: bank_db_rows example_rows)
  have "complete_withdrawal (Some cache_lost_after_acquire) NotConfigured ''S'' ''BANK-X'' None
        (SessionLocal bank_db)
       = (Inl (Exn ConnectionError ''Connection refused''),
          snd (complete_withdrawal_locked NotConfigured withdrawal_small ''BANK-X'' None
                 (SessionLocal bank_db)),
          Some ((redis_store cache_lost_after_acquire)
                  (''lock:account:'' @ account_id withdrawal_small
                     \<mapsto> (lock_token cache_lost_after_acquire,
                         acquire_at cache_lost_after_acquire + 10))))"
    by (rule complete_release_fault(1) [OF get_small cache_lost_after_acquire_fields(1) _
          cache_lost_after_acquire_fields(2)])
       (simp_all add: cache_lost_after_acquire_fields redis_get_def)
  then show ?thesis
    unfolding v by (simp add: cache_lost_after_acquire_fields example_rows)
qed

text \<open>
  C10, amended. \<open>SyncDistributedLock.acquire\<close> never raises: whatever the cache call
  does, it returns a boolean that is also the instance's \<open>acquired\<close>, and when the cache
  call raises any exception \<open>e\<close> it returns false with \<open>acquired = False\<close> and the
  store untouched. Hence, for a service built with a cache and an existing transaction,
  \<open>complete_withdrawal\<close> and \<open>complete_deposit\<close> under a failure of the cache at
  acquisition raise ConcurrentUpdateError, whatever the later cache calls would do, and
  leave the session and the store as they were. A failure of the cache at release is not
  caught unless it is a RuntimeError: \<open>release\<close> of an acquired lock raises it, and when
  the acquisition succeeded on a free key, \<open>complete_withdrawal\<close> and
  \<open>complete_deposit\<close> raise that exception after the locked completion has run, with the
  session as the completion left it and the lease still in the store.
\<close>

theorem sync_acquire_total_over_cache_failures:
  "sync_acquire (Some e) now L r = (Inr False, L\<lparr>acquired := False\<rparr>, r)
   \<and> (\<exists>b r'. sync_acquire fault now L r = (Inr b, L\<lparr>acquired := b\<rparr>, r'))
   \<and> (get_transaction_or_raise tid s = Inr t \<and> acquire_fault env = Some e \<longrightarrow>
        complete_withdrawal (Some env) wh tid btid resp s
          = (Inl (concurrent_update (account_id t)), s, Some (redis_store env))
        \<and> complete_deposit (Some env) wh tid btid resp s
          = (Inl (concurrent_update (account_id t)), s, Some (redis_store env))
        \<and> exn_class (concurrent_update (account_id t)) = ConcurrentUpdateError)
   \<and> (acquired L \<and> exn_class x \<noteq> RuntimeError \<longrightarrow>
        sync_release (Some x) g now L r = (Inl x, L, r))
   \<and> (get_transaction_or_raise tid s = Inr t \<and> acquire_fault env = None
        \<and> redis_get (acquire_at env) (redis_store env) (''lock:account:'' @ account_id t) = None
        \<and> release_fault env = Some x \<and> exn_class x \<noteq> RuntimeError \<longrightarrow>
        complete_withdrawal (Some env) wh tid btid resp s
          = (Inl x, snd (complete_withdrawal_locked wh t btid resp s),
             Some ((redis_store env)(''lock:account:'' @ account_id t
                     \<mapsto> (lock_token env, acquire_at env + 10))))
        \<and> complete_deposit (Some env) wh tid btid resp s
          = (Inl x, snd (complete_deposit_locked wh t btid resp s),
             Some ((redis_store env)(''lock:account:'' @ account_id t
                     \<mapsto> (lock_token env, acquire_at env + 10)))))"
proof (intro conjI impI)
  show "sync_acquire (Some e) now L r = (Inr False, L\<lparr>acquired := False\<rparr>, r)"
    by (rule sync_acquire_fault)
  show "\<exists>b r'. sync_acquire fault now L r = (Inr b, L\<lparr>acquired := b\<rparr>, r')"
    by (rule sync_acquire_total)
next
  assume h: "get_transaction_or_raise tid s = Inr t \<and> acquire_fault env = Some e"
  then have f: "acquire_fault env = Some e" and g: "get_transaction_or_raise tid s = Inr t"
    by simp_all
  show "complete_withdrawal (Some env) wh tid btid resp s
          = (Inl (concurrent_update (account_id t)), s, Some (redis_store env))"
    unfolding complete_withdrawal_def g
    by (simp add: with_lock_acquire_fault [OF f])
  show "complete_deposit (Some env) wh tid btid resp s
          = (Inl (concurrent_update (account_id t)), s, Some (redis_store env))"
    unfolding complete_deposit_def g
    by (simp add: with_lock_acquire_fault [OF f])
  show "exn_class (concurrent_update (account_id t)) = ConcurrentUpdateError"
    by (simp add: concurrent_update_def)
next
  assume "acquired L \<and> exn_class x \<noteq> RuntimeError"
  then show "sync_release (Some x) g now L r = (Inl x, L, r)"
    by (simp add: sync_release_fault)
next
  assume h: "get_transaction_or_raise tid s = Inr t \<and> acquire_fault env = None
        \<and> redis_get (acquire_at env) (redis_store env) (''lock:account:'' @ account_id t) = None
        \<and> release_fault env = Some x \<and> exn_class x \<noteq> RuntimeError"
  then have p: "get_transaction_or_raise tid s = Inr t" "acquire_fault env = None"
    "redis_get (acquire_at env) (redis_store env) (''lock:account:'' @ account_id t) = None"
    "release_fault env = Some x" "exn_class x \<noteq> RuntimeError"
    by simp_all
  show "complete_withdrawal (Some env) wh tid btid resp s
          = (Inl x, snd (complete_withdrawal_locked wh t btid resp s),
             Some ((redis_store env)(''lock:account:'' @ account_id t
                     \<mapsto> (lock_token env, acquire_at env + 10))))"
    by (rule complete_release_fault(1) [OF p])
  show "complete_deposit (Some env) wh tid btid resp s
          = (Inl x, snd (complete_deposit_locked wh t btid resp s),
             Some ((redis_store env)(''lock:account:'' @ account_id t
                     \<mapsto> (lock_token env, acquire_at env + 10))))"
    by (rule complete_release_fault(2) [OF p])
qed

theorem sync_acquire_total_over_cache_failures_witness:
  "get_transaction_or_raise ''S'' (SessionLocal bank_db) = Inr withdrawal_small
   \<and> acquire_fault cache_down = Some (Exn ConnectionError ''Connection refused'')
   \<and> complete_withdrawal (Some cache_down) NotConfigured ''S'' ''BANK-X'' None (SessionLocal bank_db)
       = (Inl (Exn ConcurrentUpdateError ''Account A is locked by another process''),
          SessionLocal bank_db, Some Map.empty)
   \<and> complete_deposit (Some cache_down) NotConfigured ''S'' ''BANK-X'' None (SessionLocal bank_db)
       = (Inl (Exn ConcurrentUpdateError ''Account A is locked by another process''),
          SessionLocal bank_db, Some Map.empty)
   \<and> acquire_fault cache_lost_after_acquire = None
   \<and> release_fault cache_lost_after_acquire = Some (Exn ConnectionError ''Connection refused'')
   \<and> fst (complete_withdrawal (Some cache_lost_after_acquire) NotConfigured ''S'' ''BANK-X'' None
            (SessionLocal bank_db))
       = Inl (Exn ConnectionError ''Connection refused'')
   \<and> fst (complete_deposit (Some cache_lost_after_acquire) NotConfigured ''S'' ''BANK-X'' None
            (SessionLocal bank_db))
       = Inl (Exn ConnectionError ''Connection refused'')
   \<and> snd (snd (complete_deposit (Some cache_lost_after_acquire) NotConfigured ''S'' ''BANK-X'' None
            (SessionLocal bank_db)))
       = Some [''lock:account:A'' \<mapsto> (''token-B'', 10)]"
proof -
  have g: "get_transaction_or_raise ''S'' (SessionLocal bank_db) = Inr withdrawal_small"
    by (rule get_small)
  have f: "acquire_fault cache_down = Some (Exn ConnectionError ''Connection refused'')"
    "redis_store cache_down = Map.empty"
    by (simp_all add: cache_down_def)
  have c: "concurrent_update (account_id withdrawal_small)
      = Exn ConcurrentUpdateError ''Account A is locked by another process''"
    by (simp add: concurrent_update_def example_rows)
  note c2 = conjunct2
  note T = sync_acquire_total_over_cache_failures
    [where tid = "''S''" and s = "SessionLocal bank_db" and t = withdrawal_small
       and env = cache_down and e = "Exn ConnectionError ''Connection refused''"
       and wh = NotConfigured and btid = "''BANK-X''" and resp = None,
     THEN c2, THEN c2, THEN conjunct1, THEN mp, OF conjI [OF g f(1)]]
  have h: "get_transaction_or_raise ''S'' (SessionLocal bank_db) = Inr withdrawal_small
      \<and> acquire_fault cache_lost_after_acquire = None
      \<and> redis_get (acquire_at cache_lost_after_acquire) (redis_store cache_lost_after_acquire)
           (''lock:account:'' @ account_id withdrawal_small) = None
      \<and> release_fault cache_lost_after_acquire = Some (Exn ConnectionError ''Connection refused'')
      \<and> exn_class (Exn ConnectionError ''Connection refused'') \<noteq> RuntimeError"
    using g by (simp add: cache_lost_after_acquire_fields redis_get_def)
  note U = sync_acquire_total_over_cache_failures
    [where tid = "''S''" and s = "SessionLocal bank_db" and t = withdrawal_small
       and env = cache_lost_after_acquire and x = "Exn ConnectionError ''Connection refused''"
       and wh = NotConfigured and btid = "''BANK-X''" and resp = None,
     THEN c2, THEN c2, THEN c2, THEN c2, THEN mp, OF h]
  have 1: "complete_withdrawal (Some cache_down) NotConfigured ''S'' ''BANK-X'' None
             (SessionLocal bank_db)
       = (Inl (Exn ConcurrentUpdateError ''Account A is locked by another process''),
          SessionLocal bank_db, Some Map.empty)"
    and 2: "complete_deposit (Some cache_down) NotConfigured ''S'' ''BANK-X'' None
             (SessionLocal bank_db)
       = (Inl (Exn ConcurrentUpdateError ''Account A is locked by another process''),
          SessionLocal bank_db, Some Map.empty)"
    using T f unfolding c by simp_all
  have 3: "fst (complete_withdrawal (Some cache_lost_after_acquire) NotConfigured ''S'' ''BANK-X''
                  None (SessionLocal bank_db))
       = Inl (Exn ConnectionError ''Connection refused'')"
    and 4: "fst (complete_deposit (Some cache_lost_after_acquire) NotConfigured ''S'' ''BANK-X''
                  None (SessionLocal bank_db))
       = Inl (Exn ConnectionError ''Connection refused'')"
    and 5: "snd (snd (complete_deposit (Some cache_lost_after_acquire) NotConfigured ''S''
                  ''BANK-X'' None (SessionLocal bank_db)))
       = Some [''lock:account:A'' \<mapsto> (''token-B'', 10)]"
    using U by (simp_all add: cache_lost_after_acquire_fields example_rows)
  show ?thesis
    using g f(1) cache_lost_after_acquire_fields(1,2) 1 2 3 4 5 by blast
qed

subsection \<open>Idempotent replay\<close>

lemma acquire_lock_held:
  assumes "check_existing now key cache = Some v"
  shows "acquire_lock now key cache = (False, cache)"
  using assms by (simp add: acquire_lock_def check_existing_def redis_set_nx_ex_def)

lemma acquire_lock_free:
  assumes "check_existing now key cache = None"
  shows "acquire_lock now key cache
           = (True, cache(get_key key \<mapsto> (ProcessingEntry now, now + of_int PROCESSING_LOCK_TTL)))"
  using assms by (simp add: acquire_lock_def check_existing_def redis_set_nx_ex_def)

lemma dispatch_completed:
  assumes "requires_idempotency req"
    and "headers_get IDEMPOTENCY_HEADER (req_headers req) = Some key" and "key \<noteq> []"
    and "check_existing now key cache = Some (CompletedEntry decoded code hdrs rid ts)"
  shows "dispatch svc c now later call_next req cache
           = (Inr \<lparr>status_code = code, content = RawBody (utf8_encode c decoded),
                   headers = hdrs(IDEMPOTENCY_HEADER \<mapsto> key),
                   media_type = Some ''application/json''\<rparr>, cache)"
  using assms by (simp add: dispatch_def acquire_lock_held)

lemma dispatch_processing:
  assumes "requires_idempotency req"
    and "headers_get IDEMPOTENCY_HEADER (req_headers req) = Some key" and "key \<noteq> []"
    and "check_existing now key cache = Some (ProcessingEntry ts)"
  shows "dispatch svc c now later call_next req cache
           = (Inr \<lparr>status_code = 409,
                   content = JsonBody
                     [(''error'', ''conflict''),
                      (''message'', ''this request is already being processed. please retry in a few seconds.''),
                      (''idempotency_key'', key)],
                   headers = [''Retry-After'' \<mapsto> ''5'', IDEMPOTENCY_HEADER \<mapsto> key],
                   media_type = Some ''application/json''\<rparr>, cache)"
  using assms by (simp add: dispatch_def acquire_lock_held)

lemma dispatch_first_completed:
  assumes "requires_idempotency req"
    and "headers_get IDEMPOTENCY_HEADER (req_headers req) = Some key" and "key \<noteq> []"
    and "check_existing now key cache = None"
    and "dispatch svc c now later call_next req cache = (Inr r1, cache1)"
    and "status_code r1 < 400"
  shows "\<exists>decoded hdrs rid.
           utf8_decode c (concat (body_iterator (projr (call_next req)))) = Some decoded
         \<and> content r1 = RawBody (concat (body_iterator (projr (call_next req))))
         \<and> cache1 = (cache(get_key key \<mapsto> (ProcessingEntry now, now + of_int PROCESSING_LOCK_TTL)))
                      (get_key key \<mapsto> (CompletedEntry decoded (status_code r1) hdrs rid later,
                                         later + of_int (completed_response_ttl svc)))"
proof (cases "call_next req")
  case (Inl e)
  then show ?thesis using assms by (simp add: dispatch_def acquire_lock_free)
next
  case (Inr r)
  show ?thesis
  proof (cases "inner_status_code r < 400")
    case False
    then have "r1 = as_response r" using assms Inr
      by (simp add: dispatch_def acquire_lock_free Let_def)
    then show ?thesis using False assms(6) by (simp add: as_response_def)
  next
    case True
    show ?thesis
    proof (cases "utf8_decode c (concat (body_iterator r))")
      case None
      then show ?thesis using assms Inr True
        by (simp add: dispatch_def acquire_lock_free Let_def save_response_def)
    next
      case (Some decoded)
      then show ?thesis using assms(1-5) Inr True
        by (auto simp: dispatch_def acquire_lock_free Let_def save_response_def
            redis_set_ex_def as_response_def intro!: exI)
    qed
  qed
qed

text \<open>
  C4. For a codec that encodes what it decoded back to the same bytes, and a POST request
  on an idempotent path carrying the key \<open>key\<close>: if the cache holds a COMPLETED entry
  for the key, the middleware answers with the entry's body, re-encoded, and status code,
  with the key echoed in the \<open>Idempotency-Key\<close> header, and does not call the inner
  application; if it holds a PROCESSING entry, the answer is 409 with
  \<open>Retry-After: 5\<close>. So when a first request with the key, finding no entry, returns a
  response with status below 400, a second request arriving before the completed entry
  expires returns the same body and status code, byte for byte; and a second request
  arriving while the first is being processed, within the 60 seconds of the processing
  entry, is answered 409.
\<close>

theorem idempotent_replay:
  assumes "codec_roundtrip c"
    and "requires_idempotency req2"
    and "headers_get IDEMPOTENCY_HEADER (req_headers req2) = Some key" and "key \<noteq> []"
  shows "(check_existing t2 key cache = Some (CompletedEntry decoded code hdrs rid ts) \<longrightarrow>
            dispatch svc c t2 t2' next2 req2 cache
              = (Inr \<lparr>status_code = code, content = RawBody (utf8_encode c decoded),
                      headers = hdrs(IDEMPOTENCY_HEADER \<mapsto> key),
                      media_type = Some ''application/json''\<rparr>, cache))
       \<and> (check_existing t2 key cache = Some (ProcessingEntry ts) \<longrightarrow>
            (\<exists>r2. dispatch svc c t2 t2' next2 req2 cache = (Inr r2, cache)
                \<and> status_code r2 = 409 \<and> headers r2 ''Retry-After'' = Some ''5''
                \<and> headers r2 IDEMPOTENCY_HEADER = Some key))
       \<and> (requires_idempotency req1
            \<and> headers_get IDEMPOTENCY_HEADER (req_headers req1) = Some key
            \<and> check_existing t1 key cache0 = None
            \<and> dispatch svc c t1 t1' next1 req1 cache0 = (Inr r1, cache1)
            \<and> status_code r1 < 400
            \<and> t2 < t1' + of_int (completed_response_ttl svc) \<longrightarrow>
            (\<exists>r2. dispatch svc c t2 t2' next2 req2 cache1 = (Inr r2, cache1)
                \<and> content r2 = content r1 \<and> status_code r2 = status_code r1
                \<and> headers r2 IDEMPOTENCY_HEADER = Some key))
       \<and> (check_existing t1 key cache0 = None \<and> t2 < t1 + 60 \<longrightarrow>
            (\<exists>r2. dispatch svc c t2 t2' next2 req2 (snd (acquire_lock t1 key cache0))
                     = (Inr r2, snd (acquire_lock t1 key cache0))
                \<and> status_code r2 = 409 \<and> headers r2 ''Retry-After'' = Some ''5''))"
proof (intro conjI impI)
  assume "check_existing t2 key cache = Some (CompletedEntry decoded code hdrs rid ts)"
  then show "dispatch svc c t2 t2' next2 req2 cache
              = (Inr \<lparr>status_code = code, content = RawBody (utf8_encode c decoded),
                      headers = hdrs(IDEMPOTENCY_HEADER \<mapsto> key),
                      media_type = Some ''application/json''\<rparr>, cache)"
    by (rule dispatch_completed [OF assms(2-4)])
next
  assume "check_existing t2 key cache = Some (ProcessingEntry ts)"
  from dispatch_processing [OF assms(2-4) this, of svc c t2' next2]
  show "\<exists>r2. dispatch svc c t2 t2' next2 req2 cache = (Inr r2, cache)
                \<and> status_code r2 = 409 \<and> headers r2 ''Retry-After'' = Some ''5''
                \<and> headers r2 IDEMPOTENCY_HEADER = Some key"
    by (simp add: IDEMPOTENCY_HEADER_def)
next
  assume h: "requires_idempotency req1
            \<and> headers_get IDEMPOTENCY_HEADER (req_headers req1) = Some key
            \<and> check_existing t1 key cache0 = None
            \<and> dispatch svc c t1 t1' next1 req1 cache0 = (Inr r1, cache1)
            \<and> status_code r1 < 400
            \<and> t2 < t1' + of_int (completed_response_ttl svc)"
  then obtain decoded hdrs rid where
    d: "utf8_decode c (concat (body_iterator (projr (next1 req1)))) = Some decoded"
    and b: "content r1 = RawBody (concat (body_iterator (projr (next1 req1))))"
    and c1: "cache1 = (cache0(get_key key \<mapsto> (ProcessingEntry t1, t1 + of_int PROCESSING_LOCK_TTL)))
                      (get_key key \<mapsto> (CompletedEntry decoded (status_code r1) hdrs rid t1',
                                         t1' + of_int (completed_response_ttl svc)))"
    using dispatch_first_completed [of req1 key t1 cache0 svc c t1' next1 r1 cache1] assms(4)
    by blast
  have e: "check_existing t2 key cache1 = Some (CompletedEntry decoded (status_code r1) hdrs rid t1')"
    using h c1 by (simp add: check_existing_def redis_get_def)
  have rt: "utf8_encode c decoded = concat (body_iterator (projr (next1 req1)))"
    using assms(1) d by (simp add: codec_roundtrip_def)
  from dispatch_completed [OF assms(2-4) e, of svc c t2' next2] b rt
  show "\<exists>r2. dispatch svc c t2 t2' next2 req2 cache1 = (Inr r2, cache1)
                \<and> content r2 = content r1 \<and> status_code r2 = status_code r1
                \<and> headers r2 IDEMPOTENCY_HEADER = Some key"
    by simp
next
  assume h: "check_existing t1 key cache0 = None \<and> t2 < t1 + 60"
  let ?cache = "snd (acquire_lock t1 key cache0)"
  have "check_existing t2 key ?cache = Some (ProcessingEntry t1)"
    using h by (simp add: acquire_lock_free check_existing_def redis_get_def
        PROCESSING_LOCK_TTL_def)
  from dispatch_processing [OF assms(2-4) this, of svc c t2' next2]
  show "\<exists>r2. dispatch svc c t2 t2' next2 req2 ?cache = (Inr r2, ?cache)
                \<and> status_code r2 = 409 \<and> headers r2 ''Retry-After'' = Some ''5''"
    by (simp add: IDEMPOTENCY_HEADER_def)
qed

lemma ascii_codec_roundtrip: "codec_roundtrip ascii_codec"
  by (simp add: codec_roundtrip_def ascii_codec_def)

lemma deposit_request_facts:
  "requires_idempotency deposit_request"
  "headers_get IDEMPOTENCY_HEADER (req_headers deposit_request) = Some ''k3''"
  by code_simp+

lemma first_deposit_dispatch:
  "dispatch (IdempotencyService_init 24) ascii_codec 0 1 accept_deposit deposit_request Map.empty
     = (Inr \<lparr>status_code = 202, content = RawBody [123, 125],
             headers = [''content-type'' \<mapsto> ''application/json''], media_type = None\<rparr>,
        [''idempotency:k3'' \<mapsto>
           (CompletedEntry [123, 125] 202 [''content-type'' \<mapsto> ''application/json''] None 1,
            86401)])"
  by (simp add: dispatch_def deposit_request_facts acquire_lock_def redis_set_nx_ex_def
      redis_get_def get_key_def accept_deposit_def save_response_def redis_set_ex_def
      ascii_codec_def as_response_def IdempotencyService_init_def PROCESSING_LOCK_TTL_def
      Let_def)

theorem idempotent_replay_witness:
  "codec_roundtrip ascii_codec \<and> requires_idempotency deposit_request
   \<and> headers_get IDEMPOTENCY_HEADER (req_headers deposit_request) = Some ''k3''
   \<and> (\<exists>r1 cache1 r2.
         dispatch (IdempotencyService_init 24) ascii_codec 0 1 accept_deposit deposit_request
           Map.empty = (Inr r1, cache1)
       \<and> status_code r1 = 202 \<and> content r1 = RawBody [123, 125]
       \<and> dispatch (IdempotencyService_init 24) ascii_codec 2 3
             (\<lambda>req. Inl (Exn Exception ''not called'')) deposit_request cache1 = (Inr r2, cache1)
       \<and> content r2 = RawBody [123, 125] \<and> status_code r2 = 202
       \<and> headers r2 IDEMPOTENCY_HEADER = Some ''k3'')"
proof -
  let ?r1 = "\<lparr>status_code = 202, content = RawBody [123, 125],
             headers = [''content-type'' \<mapsto> ''application/json''], media_type = None\<rparr>"
  let ?cache1 = "[''idempotency:k3'' \<mapsto>
           (CompletedEntry [123, 125] 202 [''content-type'' \<mapsto> ''application/json''] None 1,
            86401 :: real)]"
  have k: "''k3'' \<noteq> []" by simp
  have n: "check_existing 0 ''k3'' (Map.empty :: bytes idem_entry redis) = None"
    by (simp add: check_existing_def redis_get_def)
  have ttl: "(2::real) < 1 + of_int (completed_response_ttl (IdempotencyService_init 24))"
    by (simp add: IdempotencyService_init_def)
  note T = idempotent_replay [OF ascii_codec_roundtrip deposit_request_facts k,
      where ?t1.0 = 0 and ?t1' = 1 and ?t2.0 = 2 and ?t2' = 3 and ?req1.0 = deposit_request
        and ?next1.0 = accept_deposit and ?cache0.0 = Map.empty
        and ?next2.0 = "\<lambda>req. Inl (Exn Exception ''not called'')"
        and svc = "IdempotencyService_init 24" and ?r1.0 = ?r1 and ?cache1.0 = ?cache1,
      THEN conjunct2, THEN conjunct2, THEN conjunct1, THEN mp]
  have "\<exists>r2. dispatch (IdempotencyService_init 24) ascii_codec 2 3
             (\<lambda>req. Inl (Exn Exception ''not called'')) deposit_request ?cache1 = (Inr r2, ?cache1)
       \<and> content r2 = content ?r1 \<and> status_code r2 = status_code ?r1
       \<and> headers r2 IDEMPOTENCY_HEADER = Some ''k3''"
    by (rule T) (use deposit_request_facts n ttl first_deposit_dispatch in simp)
  then obtain r2 where
    "dispatch (IdempotencyService_init 24) ascii_codec 2 3
             (\<lambda>req. Inl (Exn Exception ''not called'')) deposit_request ?cache1 = (Inr r2, ?cache1)"
    "content r2 = RawBody [123, 125]" "status_code r2 = 202"
    "headers r2 IDEMPOTENCY_HEADER = Some ''k3''"
    by auto
  with first_deposit_dispatch have
    "\<exists>r1 cache1 r2.
         dispatch (IdempotencyService_init 24) ascii_codec 0 1 accept_deposit deposit_request
           Map.empty = (Inr r1, cache1)
       \<and> status_code r1 = 202 \<and> content r1 = RawBody [123, 125]
       \<and> dispatch (IdempotencyService_init 24) ascii_codec 2 3
             (\<lambda>req. Inl (Exn Exception ''not called'')) deposit_request cache1 = (Inr r2, cache1)
       \<and> content r2 = RawBody [123, 125] \<and> status_code r2 = 202
       \<and> headers r2 IDEMPOTENCY_HEADER = Some ''k3''"
    by (intro exI [of _ ?r1] exI [of _ ?cache1] exI [of _ r2]) simp
  then show ?thesis using ascii_codec_roundtrip deposit_request_facts by blast
qed

subsection \<open>Webhook delivery attempts\<close>

lemma send_webhook_answered:
  assumes "tbl did = Some row" and "post env = Inr resp"
    and "\<not> (500 \<le> http_code resp \<and> http_code resp < 600)"
  shows "send_webhook_notification env did tbl
           = (Inr [(''success'', PyBool (200 \<le> http_code resp \<and> http_code resp < 300)),
                   (''http_status_code'', PyInt (http_code resp)),
                   (''response'', PyStr (take 200 (http_text resp)))],
              tbl(did \<mapsto>
                (if 200 \<le> http_code resp \<and> http_code resp < 300
                 then row\<lparr>attempt_count := attempt_count row + 1,
                        http_status_code := Some (http_code resp),
                        response_body := Some (take 1000 (http_text resp)),
                        wd_status := WD_SUCCESS\<rparr>
                 else row\<lparr>attempt_count := attempt_count row + 1,
                        http_status_code := Some (http_code resp),
                        response_body := Some (take 1000 (http_text resp)),
                        wd_status := WD_FAILED,
                        wd_error_message := Some (''HTTP '' @ str_int (http_code resp)
                                  @ '': '' @ take 500 (http_text resp))\<rparr>)))"
  using assms
  by (simp add: send_webhook_notification_def post_and_record_def Let_def)

lemma send_webhook_raises:
  assumes "tbl did = Some row"
    and "(\<exists>resp. post env = Inr resp \<and> 500 \<le> http_code resp \<and> http_code resp < 600
              \<and> exc = Exn HTTPStatusError (status_error env))
         \<or> (post env = Inl exc \<and> exn_class exc = RequestError)"
  shows "send_webhook_notification env did tbl
           = (Inl exc,
              tbl(did \<mapsto> row\<lparr>attempt_count := attempt_count row + 1,
                     wd_error_message := Some (take 500 (str_exn exc)),
                     wd_status := (if request_retries env \<ge> WEBHOOK_MAX_RETRIES - 1
                                   then WD_FAILED else WD_PENDING)\<rparr>))"
  using assms
  by (auto simp: send_webhook_notification_def post_and_record_def Let_def)

lemma retry_countdown_capped: "retry_countdown n u \<le> retry_backoff_max"
proof -
  let ?c = "min retry_backoff_max (2 ^ n)"
  have "u mod (?c + 1) \<le> ?c" by (simp add: less_Suc_eq_le [symmetric])
  then show ?thesis by (simp add: retry_countdown_def Let_def)
qed

text \<open>
  C5, as the claim states it, fails at the responses 429 and 408: the task records the
  status code, marks the delivery FAILED and returns, so nothing is raised and no retry
  follows.
\<close>

theorem webhook_429_408_not_retried_counterexample:
  "send_webhook_notification (answered 0 429) ''WD'' [''WD'' \<mapsto> pending_delivery]
     = (Inr [(''success'', PyBool False), (''http_status_code'', PyInt 429),
             (''response'', PyStr ''body'')],
        [''WD'' \<mapsto> pending_delivery\<lparr>attempt_count := 1,
                     http_status_code := Some 429, response_body := Some ''body'',
                     wd_status := WD_FAILED,
                     wd_error_message := Some (''HTTP '' @ str_int 429 @ '': body'')\<rparr>])
   \<and> send_webhook_notification (answered 0 408) ''WD'' [''WD'' \<mapsto> pending_delivery]
     = (Inr [(''success'', PyBool False), (''http_status_code'', PyInt 408),
             (''response'', PyStr ''body'')],
        [''WD'' \<mapsto> pending_delivery\<lparr>attempt_count := 1,
                     http_status_code := Some 408, response_body := Some ''body'',
                     wd_status := WD_FAILED,
                     wd_error_message := Some (''HTTP '' @ str_int 408 @ '': body'')\<rparr>])"
proof -
  have t: "[''WD'' \<mapsto> pending_delivery] ''WD'' = Some pending_delivery" by simp
  have a: "attempt_count pending_delivery = 0" by (simp add: pending_delivery_def)
  have p: "post (answered 0 429) = Inr \<lparr>http_code = 429, http_text = ''body''\<rparr>"
    "post (answered 0 408) = Inr \<lparr>http_code = 408, http_text = ''body''\<rparr>"
    by (simp_all add: answered_def)
  show ?thesis
    using send_webhook_answered [where tbl = "[''WD'' \<mapsto> pending_delivery]" and did = "''WD''"
        and row = pending_delivery and env = "answered 0 429"
        and resp = "\<lparr>http_code = 429, http_text = ''body''\<rparr>"]
      send_webhook_answered [where tbl = "[''WD'' \<mapsto> pending_delivery]" and did = "''WD''"
        and row = pending_delivery and env = "answered 0 408"
        and resp = "\<lparr>http_code = 408, http_text = ''body''\<rparr>"] t p a
    by simp
qed

text \<open>
  C5, amended. For an attempt on an existing delivery: a 2xx response marks the delivery
  SUCCESS and the task returns; any other response outside 5xx, so every 4xx response, 408
  and 429 included, marks it FAILED and the task returns, with no retry; a 5xx response
  (as HTTPStatusError) or a network or timeout error (RequestError) is raised again by the
  task, an exception of \<open>autoretry_for\<close>, with the delivery marked PENDING while
  \<open>request.retries < WEBHOOK_MAX_RETRIES - 1\<close> and FAILED once the retries are
  exhausted. The automatic retry has \<open>max_retries = 5\<close> and backoff set, and its
  countdown never exceeds 600 seconds.
\<close>

theorem webhook_attempt_classification:
  assumes "tbl did = Some row"
  shows "(post env = Inr resp \<and> 200 \<le> http_code resp \<and> http_code resp < 300 \<longrightarrow>
            (\<exists>result d. send_webhook_notification env did tbl = (Inr result, tbl(did \<mapsto> d))
               \<and> map_of result ''success'' = Some (PyBool True)
               \<and> wd_status d = WD_SUCCESS \<and> http_status_code d = Some (http_code resp)))
       \<and> (post env = Inr resp \<and> \<not> (200 \<le> http_code resp \<and> http_code resp < 300)
            \<and> \<not> (500 \<le> http_code resp \<and> http_code resp < 600) \<longrightarrow>
            (\<exists>result d. send_webhook_notification env did tbl = (Inr result, tbl(did \<mapsto> d))
               \<and> map_of result ''success'' = Some (PyBool False)
               \<and> wd_status d = WD_FAILED \<and> http_status_code d = Some (http_code resp)))
       \<and> ((post env = Inr resp \<and> 500 \<le> http_code resp \<and> http_code resp < 600
             \<and> exc = Exn HTTPStatusError (status_error env))
            \<or> (post env = Inl exc \<and> exn_class exc = RequestError) \<longrightarrow>
            (\<exists>d. send_webhook_notification env did tbl = (Inl exc, tbl(did \<mapsto> d))
               \<and> exn_class exc \<in> autoretry_for
               \<and> (request_retries env < WEBHOOK_MAX_RETRIES - 1 \<longrightarrow> wd_status d = WD_PENDING)
               \<and> (retries_exhausted (request_retries env) retry_kwargs_max_retries
                    \<longrightarrow> wd_status d = WD_FAILED)))
       \<and> retry_kwargs_max_retries = 5 \<and> retry_backoff
       \<and> retry_countdown n u \<le> 600"
proof (intro conjI impI)
  assume h: "post env = Inr resp \<and> 200 \<le> http_code resp \<and> http_code resp < 300"
  then have "\<not> (500 \<le> http_code resp \<and> http_code resp < 600)" by simp
  from send_webhook_answered [where tbl = tbl and did = did and env = env and resp = resp,
      OF assms _ this] h
  show "\<exists>result d. send_webhook_notification env did tbl = (Inr result, tbl(did \<mapsto> d))
               \<and> map_of result ''success'' = Some (PyBool True)
               \<and> wd_status d = WD_SUCCESS \<and> http_status_code d = Some (http_code resp)"
    by (auto intro!: exI)
next
  assume h: "post env = Inr resp \<and> \<not> (200 \<le> http_code resp \<and> http_code resp < 300)
            \<and> \<not> (500 \<le> http_code resp \<and> http_code resp < 600)"
  then have n: "\<not> (500 \<le> http_code resp \<and> http_code resp < 600)" by simp
  from send_webhook_answered [where tbl = tbl and did = did and env = env and resp = resp,
      OF assms _ n] h
  show "\<exists>result d. send_webhook_notification env did tbl = (Inr result, tbl(did \<mapsto> d))
               \<and> map_of result ''success'' = Some (PyBool False)
               \<and> wd_status d = WD_FAILED \<and> http_status_code d = Some (http_code resp)"
    by (auto intro!: exI)
next
  assume h: "(post env = Inr resp \<and> 500 \<le> http_code resp \<and> http_code resp < 600
             \<and> exc = Exn HTTPStatusError (status_error env))
            \<or> (post env = Inl exc \<and> exn_class exc = RequestError)"
  then have h': "(\<exists>resp. post env = Inr resp \<and> 500 \<le> http_code resp \<and> http_code resp < 600
              \<and> exc = Exn HTTPStatusError (status_error env))
         \<or> (post env = Inl exc \<and> exn_class exc = RequestError)"
    by blast
  have c: "exn_class exc \<in> autoretry_for" using h by (auto simp: autoretry_for_def)
  from send_webhook_raises [where tbl = tbl and did = did, OF assms h'] c
  show "\<exists>d. send_webhook_notification env did tbl = (Inl exc, tbl(did \<mapsto> d))
               \<and> exn_class exc \<in> autoretry_for
               \<and> (request_retries env < WEBHOOK_MAX_RETRIES - 1 \<longrightarrow> wd_status d = WD_PENDING)
               \<and> (retries_exhausted (request_retries env) retry_kwargs_max_retries
                    \<longrightarrow> wd_status d = WD_FAILED)"
    by (auto simp: retries_exhausted_def retry_kwargs_max_retries_def WEBHOOK_MAX_RETRIES_def
        intro!: exI)
next
  show "retry_kwargs_max_retries = 5"
    by (simp add: retry_kwargs_max_retries_def WEBHOOK_MAX_RETRIES_def)
  show retry_backoff by (simp add: retry_backoff_def)
  show "retry_countdown n u \<le> 600"
    using retry_countdown_capped [of n u] by (simp add: retry_backoff_max_def)
qed

theorem webhook_attempt_classification_witness:
  "[''WD'' \<mapsto> pending_delivery] ''WD'' = Some pending_delivery
   \<and> (\<exists>result d. send_webhook_notification (answered 0 200) ''WD'' [''WD'' \<mapsto> pending_delivery]
                    = (Inr result, [''WD'' \<mapsto> d]) \<and> wd_status d = WD_SUCCESS)
   \<and> (\<exists>result d. send_webhook_notification (answered 0 404) ''WD'' [''WD'' \<mapsto> pending_delivery]
                    = (Inr result, [''WD'' \<mapsto> d]) \<and> wd_status d = WD_FAILED)
   \<and> (\<exists>d. send_webhook_notification (answered 0 503) ''WD'' [''WD'' \<mapsto> pending_delivery]
              = (Inl (Exn HTTPStatusError ''Server error''), [''WD'' \<mapsto> d])
          \<and> wd_status d = WD_PENDING)
   \<and> (\<exists>d. send_webhook_notification (timed_out 5) ''WD'' [''WD'' \<mapsto> pending_delivery]
              = (Inl (Exn RequestError ''timed out''), [''WD'' \<mapsto> d])
          \<and> wd_status d = WD_FAILED)"
proof -
  have t: "[''WD'' \<mapsto> pending_delivery] ''WD'' = Some pending_delivery" by simp
  note A = webhook_attempt_classification [where tbl = "[''WD'' \<mapsto> pending_delivery]" and did = "''WD''" and row = pending_delivery and env = "answered 0 200"
      and resp = "\<lparr>http_code = 200, http_text = ''body''\<rparr>", THEN conjunct1]
  note B = webhook_attempt_classification [where tbl = "[''WD'' \<mapsto> pending_delivery]" and did = "''WD''" and row = pending_delivery and env = "answered 0 404"
      and resp = "\<lparr>http_code = 404, http_text = ''body''\<rparr>", THEN conjunct2, THEN conjunct1]
  note C = webhook_attempt_classification [where tbl = "[''WD'' \<mapsto> pending_delivery]" and did = "''WD''" and row = pending_delivery and env = "answered 0 503"
      and resp = "\<lparr>http_code = 503, http_text = ''body''\<rparr>"
      and exc = "Exn HTTPStatusError ''Server error''",
      THEN conjunct2, THEN conjunct2, THEN conjunct1]
  note D = webhook_attempt_classification [where tbl = "[''WD'' \<mapsto> pending_delivery]" and did = "''WD''" and row = pending_delivery and env = "timed_out 5"
      and resp = "\<lparr>http_code = 503, http_text = ''body''\<rparr>"
      and exc = "Exn RequestError ''timed out''",
      THEN conjunct2, THEN conjunct2, THEN conjunct1]
  have a: "\<exists>result d. send_webhook_notification (answered 0 200) ''WD'' [''WD'' \<mapsto> pending_delivery]
                    = (Inr result, [''WD'' \<mapsto> d]) \<and> wd_status d = WD_SUCCESS"
    using A by (auto simp: answered_def)
  have b: "\<exists>result d. send_webhook_notification (answered 0 404) ''WD'' [''WD'' \<mapsto> pending_delivery]
                    = (Inr result, [''WD'' \<mapsto> d]) \<and> wd_status d = WD_FAILED"
    using B by (auto simp: answered_def)
  have c: "\<exists>d. send_webhook_notification (answered 0 503) ''WD'' [''WD'' \<mapsto> pending_delivery]
              = (Inl (Exn HTTPStatusError ''Server error''), [''WD'' \<mapsto> d])
          \<and> wd_status d = WD_PENDING"
    using C by (auto simp: answered_def WEBHOOK_MAX_RETRIES_def)
  have d: "\<exists>d. send_webhook_notification (timed_out 5) ''WD'' [''WD'' \<mapsto> pending_delivery]
              = (Inl (Exn RequestError ''timed out''), [''WD'' \<mapsto> d])
          \<and> wd_status d = WD_FAILED"
    using D by (auto simp: timed_out_def retries_exhausted_def retry_kwargs_max_retries_def
        WEBHOOK_MAX_RETRIES_def)
  show ?thesis using t a b c d by blast
qed

subsection \<open>Webhook signatures\<close>

lemma hex_digit_ascii: "n < 16 \<Longrightarrow> (of_char (hex_digit n) :: nat) < 128"
proof -
  assume "n < 16"
  then have "hex_digit n \<in> set ''0123456789abcdef''"
    unfolding hex_digit_def by (intro nth_mem) simp
  then show ?thesis by auto
qed

lemma hexdigest_ascii: "is_ascii (hexdigest bs)"
proof -
  have "\<And>w :: 8 word. unat w div 16 < 16"
  proof -
    fix w :: "8 word"
    have "unat w < 256" using unsigned_less [of w, where ?'a = nat] by simp
    then show "unat w div 16 < 16" by simp
  qed
  then show ?thesis
    by (induction bs) (simp_all add: hexdigest_def is_ascii_def hex_digit_ascii)
qed

lemma non_ascii_233: "\<not> is_ascii (char_of (233 :: nat) # s)"
  by (simp add: is_ascii_def)

text \<open>
  C9. The signature that \<open>generate_webhook_signature\<close> computes verifies. A signature
  whose first character is replaced by the character of code 233, which is not ASCII, does
  not make \<open>verify_webhook_signature\<close> return false: \<open>compare_digest\<close> raises
  TypeError.
\<close>

theorem verify_webhook_signature_non_ascii:
  "verify_webhook_signature env pl (generate_webhook_signature env pl secret) secret = Inr True
   \<and> verify_webhook_signature env pl
        (char_of (233 :: nat) # tl (generate_webhook_signature env pl secret)) secret
       = Inl (Exn TypeError ''comparing strings with non-ASCII characters is not supported'')"
  by (simp add: verify_webhook_signature_def generate_webhook_signature_def compare_digest_def
      hexdigest_ascii non_ascii_233 Let_def)

end
